theory Spec2Isabelle
  imports Main "HOL-Library.Word"
begin

unbundle bit_operations_syntax

section \<open>JavaScript values, strings and thrown errors\<close>

text \<open>
  Strings are ASCII character lists. Numbers are the integer-valued JavaScript numbers
  (status codes, timestamps, chunk sizes); dates are milliseconds since the epoch.
  An optional field of a TypeScript interface is an \<open>option\<close>: \<open>None\<close> is
  \<open>undefined\<close> (or \<open>null\<close>), which is what \<open>??\<close> and \<open>?.\<close> test for.
  Logging (\<open>console.log\<close>, \<open>console.warn\<close>) is not modelled.
\<close>

datatype jsvalue =
    JUndefined
  | JNull
  | JBool bool
  | JNum int
  | JStr string
  | JArr "jsvalue list"
  | JObj "(string \<times> jsvalue) list"

type_synonym jsobject = "(string \<times> jsvalue) list"

text \<open>Truthiness, as \<open>if (v)\<close>, \<open>!v\<close> and \<open>a || b\<close> read it.\<close>

fun truthy :: "jsvalue \<Rightarrow> bool" where
  "truthy JUndefined = False"
| "truthy JNull = False"
| "truthy (JBool b) = b"
| "truthy (JNum n) = (n \<noteq> 0)"
| "truthy (JStr s) = (s \<noteq> [])"
| "truthy (JArr xs) = True"
| "truthy (JObj kvs) = True"

text \<open>
  Reading the own property \<open>key\<close> of an object: \<open>undefined\<close> when there is none.
  Every read in the modelled code is of a name that \<open>Object.prototype\<close> does not
  have.
\<close>

definition get_prop :: "jsobject \<Rightarrow> string \<Rightarrow> jsvalue" where
  "get_prop obj k = (case map_of obj k of None \<Rightarrow> JUndefined | Some v \<Rightarrow> v)"

text \<open>Whether \<open>key\<close> is an own property of the object.\<close>

definition has_prop :: "string \<Rightarrow> jsobject \<Rightarrow> bool" where
  "has_prop k obj = (map_of obj k \<noteq> None)"

text \<open>\<open>Array.prototype.join\<close> on strings.\<close>

fun join :: "string \<Rightarrow> string list \<Rightarrow> string" where
  "join sep [] = []"
| "join sep [x] = x"
| "join sep (x # y # ys) = x @ sep @ join sep (y # ys)"

text \<open>
  The string a value turns into when it is used as a property key
  (\<open>obj[value]\<close>). Numbers print in decimal, which is what JavaScript prints below
  10^21; inside an array \<open>null\<close> and \<open>undefined\<close> print as nothing.
\<close>

definition digit_char :: "nat \<Rightarrow> char" where
  "digit_char d = ''0123456789'' ! d"

fun string_of_nat :: "nat \<Rightarrow> string" where
  "string_of_nat n =
     (if n < 10 then [digit_char n] else string_of_nat (n div 10) @ [digit_char (n mod 10)])"

declare string_of_nat.simps [simp del]

definition string_of_int :: "int \<Rightarrow> string" where
  "string_of_int i =
     (if i < 0 then CHR ''-'' # string_of_nat (nat (- i)) else string_of_nat (nat i))"

fun js_key_string :: "jsvalue \<Rightarrow> string" where
  "js_key_string JUndefined = ''undefined''"
| "js_key_string JNull = ''null''"
| "js_key_string (JBool b) = (if b then ''true'' else ''false'')"
| "js_key_string (JNum n) = string_of_int n"
| "js_key_string (JStr s) = s"
| "js_key_string (JArr xs) =
     join '','' (map (\<lambda>x. if x = JUndefined \<or> x = JNull then [] else js_key_string x) xs)"
| "js_key_string (JObj kvs) = ''[object Object]''"

text \<open>
  An array index is the decimal text, without leading zeros, of a number below
  2^32 - 1. An object lists its array-index keys first, in ascending order, and its
  other keys after them in the order of their creation; \<open>JSON.stringify\<close> and the
  spread \<open>{...obj}\<close> follow that order.
\<close>

definition is_digit :: "char \<Rightarrow> bool" where
  "is_digit c = (let n = (of_char c :: nat) in 48 \<le> n \<and> n \<le> 57)"

fun digits_value :: "nat \<Rightarrow> string \<Rightarrow> nat" where
  "digits_value acc [] = acc"
| "digits_value acc (c # cs) = digits_value (10 * acc + (of_char c - 48)) cs"

definition array_index :: "string \<Rightarrow> nat option" where
  "array_index k =
     (if k \<noteq> [] \<and> list_all is_digit k \<and> (hd k \<noteq> CHR ''0'' \<or> k = ''0'') \<and>
         digits_value 0 k < 2 ^ 32 - 1
      then Some (digits_value 0 k) else None)"

fun replace_prop :: "string \<Rightarrow> jsvalue \<Rightarrow> jsobject \<Rightarrow> jsobject" where
  "replace_prop k v [] = []"
| "replace_prop k v ((k', v') # rest) =
     (if k' = k then (k, v) # rest else (k', v') # replace_prop k v rest)"

fun insert_index :: "nat \<Rightarrow> string \<Rightarrow> jsvalue \<Rightarrow> jsobject \<Rightarrow> jsobject" where
  "insert_index n k v [] = [(k, v)]"
| "insert_index n k v ((k', v') # rest) =
     (case array_index k' of
        Some n' \<Rightarrow> if n' < n then (k', v') # insert_index n k v rest
                    else (k, v) # (k', v') # rest
      | None \<Rightarrow> (k, v) # (k', v') # rest)"

text \<open>
  Writing the own data property \<open>key\<close> of an object: an existing key keeps its place,
  a new one goes where the listing order puts it.
\<close>

definition set_prop :: "string \<Rightarrow> jsvalue \<Rightarrow> jsobject \<Rightarrow> jsobject" where
  "set_prop k v obj =
     (if has_prop k obj then replace_prop k v obj
      else case array_index k of
             Some n \<Rightarrow> insert_index n k v obj
           | None \<Rightarrow> obj @ [(k, v)])"

text \<open>
  Prototypes. An object made by a literal inherits from \<open>Object.prototype\<close>, whose
  property names (ECMAScript with its annex for browsers) are listed here; an array
  inherits from \<open>Array.prototype\<close> (names as of ECMAScript 2023) and through it from
  \<open>Object.prototype\<close>. The prototype of an object can be replaced by \<open>null\<close> or by
  another object, which is a data value here: a plain object or an array.
\<close>

definition Object_prototype_names :: "string list" where
  "Object_prototype_names =
     [''constructor'', ''__defineGetter__'', ''__defineSetter__'', ''hasOwnProperty'',
      ''__lookupGetter__'', ''__lookupSetter__'', ''isPrototypeOf'',
      ''propertyIsEnumerable'', ''toString'', ''valueOf'', ''__proto__'',
      ''toLocaleString'']"

definition Array_prototype_names :: "string list" where
  "Array_prototype_names =
     [''length'', ''constructor'', ''at'', ''concat'', ''copyWithin'', ''fill'', ''find'',
      ''findIndex'', ''findLast'', ''findLastIndex'', ''lastIndexOf'', ''pop'', ''push'',
      ''reverse'', ''shift'', ''unshift'', ''slice'', ''sort'', ''splice'', ''includes'',
      ''indexOf'', ''join'', ''keys'', ''entries'', ''values'', ''forEach'', ''filter'',
      ''flat'', ''flatMap'', ''map'', ''every'', ''some'', ''reduce'', ''reduceRight'',
      ''toLocaleString'', ''toString'', ''toReversed'', ''toSorted'', ''toSpliced'',
      ''with'']"

datatype prototype = Object_prototype | Null_prototype | Data_prototype jsvalue

text \<open>The names an object inherits through its prototype chain.\<close>

definition inherited_names :: "prototype \<Rightarrow> string list" where
  "inherited_names p =
     (case p of
        Object_prototype \<Rightarrow> Object_prototype_names
      | Null_prototype \<Rightarrow> []
      | Data_prototype (JObj kvs) \<Rightarrow> map fst kvs @ Object_prototype_names
      | Data_prototype (JArr xs) \<Rightarrow>
          map string_of_nat [0 ..< length xs] @ ''length'' # Array_prototype_names
            @ Object_prototype_names
      | Data_prototype _ \<Rightarrow> Object_prototype_names)"

text \<open>
  Whether an assignment to \<open>__proto__\<close> on an object that has no own property of
  that name reaches the accessor of \<open>Object.prototype\<close>: not when the chain ends in
  \<open>null\<close>, and not when the prototype is a data object with an own property
  \<open>__proto__\<close>, which is found first.
\<close>

definition proto_setter_inherited :: "prototype \<Rightarrow> bool" where
  "proto_setter_inherited p =
     (case p of
        Object_prototype \<Rightarrow> True
      | Null_prototype \<Rightarrow> False
      | Data_prototype (JObj kvs) \<Rightarrow> \<not> has_prop ''__proto__'' kvs
      | Data_prototype _ \<Rightarrow> True)"

text \<open>\<open>toUpperCase\<close> on ASCII: the letters a to z change, every other character stays.\<close>

definition toUpperCase_char :: "char \<Rightarrow> char" where
  "toUpperCase_char c =
     (case map_of (zip ''abcdefghijklmnopqrstuvwxyz'' ''ABCDEFGHIJKLMNOPQRSTUVWXYZ'') c of
        None \<Rightarrow> c
      | Some u \<Rightarrow> u)"

definition toUpperCase :: "string \<Rightarrow> string" where
  "toUpperCase s = map toUpperCase_char s"

text \<open>errors.ts: the error codes and the error class (code and optional details).\<close>

datatype ErrorCode =
    CONN_NO_CONFIG | CONN_NO_CONNECT | CONN_NATIVEMESSAGE | CONN_TIMEOUT
  | CONN_UNEXPECTED_ANSWER | CONN_ALREADY_CONNECTED
  | PARAM_WRONG | PARAM_IGNORED
  | MSG_INCOMPLETE | MSG_EMPTY | MSG_OP_PENDING | MSG_NO_KEYS | MSG_OP_BLOCKED
  | MSG_NOT_A_FPR | MSG_UNEXPECTED
  | KEY_INVALID | KEY_NOKEY | KEY_NO_DEFAULT | KEY_UNSUPP_ALGO | KEY_NO_USERID
  | SIG_NO_SIGS | SIG_WRONG
  | GNUPG_ERROR

text \<open>
  What a function can throw: a \<open>GpgmeError\<close> with its code and details
  (\<open>JUndefined\<close> when no details are given), or the runtime's \<open>TypeError\<close> for a
  property read on \<open>undefined\<close> or \<open>null\<close>.
\<close>

datatype exn =
    GpgmeError ErrorCode jsvalue
  | TypeError string

text \<open>helpers.ts\<close>

definition timestampToDate :: "int \<Rightarrow> int" where
  "timestampToDate timestamp = timestamp * 1000"

definition DEFAULT_CHUNKSIZE :: int where
  "DEFAULT_CHUNKSIZE = 1023 * 1024"

text \<open>\<open>String.prototype.includes\<close>\<close>

fun startsWith :: "string \<Rightarrow> string \<Rightarrow> bool" where
  "startsWith s [] = True"
| "startsWith [] (c # cs) = False"
| "startsWith (d # ds) (c # cs) = (d = c \<and> startsWith ds cs)"

fun str_includes :: "string \<Rightarrow> string \<Rightarrow> bool" where
  "str_includes [] sub = (sub = [])"
| "str_includes (d # ds) sub = (startsWith (d # ds) sub \<or> str_includes ds sub)"

text \<open>\<open>a || b\<close> on values.\<close>

definition js_or :: "jsvalue \<Rightarrow> jsvalue \<Rightarrow> jsvalue" where
  "js_or a b = (if truthy a then a else b)"

text \<open>
  What a platform call throws: an \<open>Error\<close> instance with its message, or some other
  value (the \<open>e instanceof Error\<close> tests of the source distinguish the two).
\<close>

datatype thrown = Error string | NotAnError

section \<open>Asynchronous results\<close>

text \<open>
  An \<open>async\<close> function runs against a world \<open>'w\<close> (the transport and the engine
  behind it) and gives back the state of its promise: \<open>None\<close> while it is pending for
  good, \<open>Some (Inl e)\<close> rejected, \<open>Some (Inr v)\<close> resolved.
\<close>

type_synonym ('a, 'w) async = "'w \<Rightarrow> (exn + 'a) option \<times> 'w"

definition async_return :: "'a \<Rightarrow> ('a, 'w) async" where
  "async_return v = (\<lambda>w. (Some (Inr v), w))"

definition async_throw :: "exn \<Rightarrow> ('a, 'w) async" where
  "async_throw e = (\<lambda>w. (Some (Inl e), w))"

text \<open>A synchronous call that may throw, inside an \<open>async\<close> body.\<close>

definition lift :: "exn + 'a \<Rightarrow> ('a, 'w) async" where
  "lift r = (\<lambda>w. (Some r, w))"

text \<open>\<open>const v = await p; k(v)\<close>\<close>

definition await :: "('a, 'w) async \<Rightarrow> ('a \<Rightarrow> ('b, 'w) async) \<Rightarrow> ('b, 'w) async" where
  "await p k = (\<lambda>w.
     case p w of
       (None, w') \<Rightarrow> (None, w')
     | (Some (Inl e), w') \<Rightarrow> (Some (Inl e), w')
     | (Some (Inr v), w') \<Rightarrow> k v w')"


section \<open>Connection (connection.ts)\<close>

text \<open>
  \<open>port_open\<close> is \<open>this.port !== null\<close>. \<open>sent\<close> records every object handed to
  \<open>port.postMessage\<close>, oldest first. A write on an open port is taken to succeed,
  except the first write of \<open>post\<close>, whose failure the source catches and which is a
  parameter here. \<open>checkConnection\<close>, which polls against the clock, is not modelled.
\<close>

record Connection =
  port_open :: bool
  connectionError :: "string option"
  isNativeHostUnknown :: bool
  sent :: "jsobject list"

text \<open>The constructor: \<open>connect()\<close>, given what \<open>chrome.runtime.connectNative\<close> does.\<close>

definition connect :: "thrown option \<Rightarrow> Connection" where
  "connect connectNative =
     (case connectNative of
        None \<Rightarrow> \<lparr> port_open = True, connectionError = None,
                  isNativeHostUnknown = False, sent = [] \<rparr>
      | Some e \<Rightarrow> \<lparr> port_open = False,
                  connectionError =
                    Some (case e of Error m \<Rightarrow> m | NotAnError \<Rightarrow> ''Unknown connection error''),
                  isNativeHostUnknown = False, sent = [] \<rparr>)"

text \<open>
  The disconnect listener installed by \<open>connect()\<close>; its argument is the message of
  \<open>chrome.runtime.lastError\<close>, if there is one.
\<close>

definition onDisconnect :: "string option \<Rightarrow> Connection \<Rightarrow> Connection" where
  "onDisconnect lastError c =
     (case lastError of
        Some m \<Rightarrow>
          c \<lparr> connectionError := Some m,
              isNativeHostUnknown :=
                (if str_includes m ''not found'' \<or> str_includes m ''Native host has exited''
                 then True else isNativeHostUnknown c),
              port_open := False \<rparr>
      | None \<Rightarrow>
          c \<lparr> connectionError := Some ''Disconnected without error message'',
              port_open := False \<rparr>)"

definition disconnect :: "Connection \<Rightarrow> Connection" where
  "disconnect c =
     (if port_open c
      then c \<lparr> port_open := False, connectionError := Some ''Disconnect requested by client'' \<rparr>
      else c)"

definition isConnected :: "Connection \<Rightarrow> bool" where
  "isConnected c = port_open c"

definition getConnectionError :: "Connection \<Rightarrow> exn" where
  "getConnectionError c =
     (if isNativeHostUnknown c then GpgmeError CONN_NO_CONFIG JUndefined
      else GpgmeError CONN_NATIVEMESSAGE
             (case connectionError c of
                None \<Rightarrow> JUndefined
              | Some m \<Rightarrow> if m \<noteq> [] then JStr m else JUndefined))"

text \<open>An inbound message object, as \<open>handleMessage\<close> reads it.\<close>

record RawResponse =
  rr_response :: "string option"
  rr_more :: "bool option"

text \<open>
  \<open>atob\<close> and \<open>JSON.parse\<close> belong to the platform and are parameters; \<open>Inl\<close> is what
  they throw.
\<close>

record Platform =
  atob :: "string \<Rightarrow> thrown + string"
  JSON_parse :: "string \<Rightarrow> thrown + jsvalue"

text \<open>
  The variables of one \<open>post\<close> call: the connection, the \<open>message\<close> argument, the
  accumulation buffer, whether \<open>handleMessage\<close> is registered on the port, and the
  promise (\<open>None\<close> while pending).
\<close>

record Exchange =
  conn :: Connection
  ex_message :: jsobject
  responseB64 :: string
  listening :: bool
  settled :: "(exn + jsvalue) option"

text \<open>\<open>resolve\<close> and \<open>reject\<close>: only the first call settles the promise.\<close>

definition settle :: "exn + jsvalue \<Rightarrow> Exchange \<Rightarrow> Exchange" where
  "settle r x = (if settled x = None then x \<lparr> settled := Some r \<rparr> else x)"

definition cleanup :: "Exchange \<Rightarrow> Exchange" where
  "cleanup x = (if port_open (conn x) then x \<lparr> listening := False \<rparr> else x)"

text \<open>The continuation request written after a chunk with \<open>more: true\<close>.\<close>

definition getmore :: "jsobject \<Rightarrow> jsobject" where
  "getmore message =
     [(''op'', JStr ''getmore''),
      (''chunksize'', js_or (get_prop message ''chunksize'') (JNum DEFAULT_CHUNKSIZE))]"

text \<open>\<open>this.port?.postMessage(m)\<close>\<close>

definition port_postMessage :: "jsobject \<Rightarrow> Exchange \<Rightarrow> Exchange" where
  "port_postMessage m x =
     (if port_open (conn x) then x \<lparr> conn := (conn x) \<lparr> sent := sent (conn x) @ [m] \<rparr> \<rparr> else x)"

definition thrown_message :: "thrown \<Rightarrow> string \<Rightarrow> string" where
  "thrown_message e fallback = (case e of Error m \<Rightarrow> m | NotAnError \<Rightarrow> fallback)"

definition null_property_message :: string where
  "null_property_message = ''Cannot read properties of null''"

text \<open>
  The \<open>try\<close> block of \<open>handleMessage\<close>: decode, parse, look at \<open>decoded.type\<close>
  (which throws a \<open>TypeError\<close> when \<open>decoded\<close> is \<open>null\<close>).
\<close>

definition decodeResponse :: "Platform \<Rightarrow> string \<Rightarrow> exn + jsvalue" where
  "decodeResponse pf b64 =
     (case atob pf b64 of
        Inl e \<Rightarrow> Inl (GpgmeError CONN_UNEXPECTED_ANSWER
                       (JStr (thrown_message e ''Failed to decode response'')))
      | Inr decodedStr \<Rightarrow>
          (case JSON_parse pf decodedStr of
             Inl e \<Rightarrow> Inl (GpgmeError CONN_UNEXPECTED_ANSWER
                            (JStr (thrown_message e ''Failed to decode response'')))
           | Inr decoded \<Rightarrow>
               (case decoded of
                  JNull \<Rightarrow> Inl (GpgmeError CONN_UNEXPECTED_ANSWER (JStr null_property_message))
                | JUndefined \<Rightarrow>
                    Inl (GpgmeError CONN_UNEXPECTED_ANSWER (JStr null_property_message))
                | JObj kvs \<Rightarrow>
                    if get_prop kvs ''type'' = JStr ''error''
                    then Inl (GpgmeError GNUPG_ERROR (get_prop kvs ''msg''))
                    else Inr decoded
                | _ \<Rightarrow> Inr decoded)))"

definition handleMessage :: "Platform \<Rightarrow> RawResponse option \<Rightarrow> Exchange \<Rightarrow> Exchange" where
  "handleMessage pf msg x =
     (case msg of
        None \<Rightarrow> settle (Inl (GpgmeError CONN_UNEXPECTED_ANSWER JUndefined)) (cleanup x)
      | Some rawResponse \<Rightarrow>
          let x1 = (case rr_response rawResponse of
                      None \<Rightarrow> x
                    | Some r \<Rightarrow> if r \<noteq> [] then x \<lparr> responseB64 := responseB64 x @ r \<rparr> else x)
          in if rr_more rawResponse = Some True
             then port_postMessage (getmore (ex_message x1)) x1
             else let x2 = cleanup x1
                  in settle (decodeResponse pf (responseB64 x2)) x2)"

definition handleDisconnect :: "Exchange \<Rightarrow> Exchange" where
  "handleDisconnect x = (let x1 = cleanup x in settle (Inl (getConnectionError (conn x1))) x1)"

text \<open>The check that \<open>post\<close> schedules 25 ms after it starts.\<close>

definition graceCheck :: "Exchange \<Rightarrow> Exchange" where
  "graceCheck x =
     (case connectionError (conn x) of
        None \<Rightarrow> x
      | Some e \<Rightarrow>
          if e \<noteq> []
          then let x1 = cleanup x
               in if isNativeHostUnknown (conn x1)
                  then settle (Inl (GpgmeError CONN_NO_CONFIG JUndefined)) x1
                  else settle (Inl (GpgmeError CONN_NO_CONNECT (JStr e))) x1
          else x)"

text \<open>
  What can happen while a \<open>post\<close> is under way. An open port delivers a message to the
  registered listener; a disconnect runs the constructor's listener and then
  \<open>handleDisconnect\<close>, once.
\<close>

datatype event =
    OnMessage "RawResponse option"
  | OnDisconnect "string option"
  | GraceTimeout

definition step :: "Platform \<Rightarrow> event \<Rightarrow> Exchange \<Rightarrow> Exchange" where
  "step pf ev x =
     (case ev of
        OnMessage msg \<Rightarrow>
          if port_open (conn x) \<and> listening x then handleMessage pf msg x else x
      | OnDisconnect lastError \<Rightarrow>
          if port_open (conn x)
          then handleDisconnect (x \<lparr> conn := onDisconnect lastError (conn x) \<rparr>)
          else x
      | GraceTimeout \<Rightarrow> graceCheck x)"

fun run :: "Platform \<Rightarrow> event list \<Rightarrow> Exchange \<Rightarrow> Exchange" where
  "run pf [] x = x"
| "run pf (ev # evs) x = run pf evs (step pf ev x)"

text \<open>
  The synchronous part of the promise body: register the listeners, then write the
  message; \<open>write\<close> is what that \<open>postMessage\<close> throws, if anything.
\<close>

definition post_begin :: "thrown option \<Rightarrow> jsobject \<Rightarrow> Connection \<Rightarrow> Exchange" where
  "post_begin write message c =
     (let x = \<lparr> conn = c, ex_message = message, responseB64 = [], listening = True,
                settled = None \<rparr>
      in case write of
           None \<Rightarrow> port_postMessage message x
         | Some e \<Rightarrow>
             settle (Inl (GpgmeError CONN_NO_CONNECT
                            (case e of Error m \<Rightarrow> JStr m | NotAnError \<Rightarrow> JUndefined)))
                    (cleanup x))"

definition Connection_post ::
    "Platform \<Rightarrow> thrown option \<Rightarrow> event list \<Rightarrow> jsobject \<Rightarrow> (jsvalue, Connection) async" where
  "Connection_post pf write events message c =
     (if \<not> port_open c
      then (Some (Inl (getConnectionError (disconnect c))), disconnect c)
      else let x = run pf events (post_begin write message c)
           in (settled x, conn x))"

section \<open>Message builder (message.ts)\<close>

record OperationDef =
  required :: "string list option"
  optional :: "string list option"
  pinentry :: "bool option"

definition permittedOperations :: "(string \<times> OperationDef) list" where
  "permittedOperations =
     [(''encrypt'', \<lparr> required = Some [''data'', ''keys''],
         optional = Some [''protocol'', ''signing_keys'', ''base64'', ''mime'', ''armor'',
           ''always-trust'', ''no-encrypt-to'', ''no-compress'', ''throw-keyids'', ''wrap'',
           ''want-address'', ''file_name''],
         pinentry = Some True \<rparr>),
      (''decrypt'', \<lparr> required = Some [''data''],
         optional = Some [''protocol'', ''base64''], pinentry = Some True \<rparr>),
      (''sign'', \<lparr> required = Some [''data'', ''keys''],
         optional = Some [''protocol'', ''sender'', ''mode'', ''base64''],
         pinentry = Some True \<rparr>),
      (''verify'', \<lparr> required = Some [''data''],
         optional = Some [''protocol'', ''signature'', ''base64''], pinentry = None \<rparr>),
      (''keylist'', \<lparr> required = None,
         optional = Some [''keys'', ''protocol'', ''secret'', ''extern'', ''local'', ''sigs'',
           ''notations'', ''tofu'', ''ephemeral'', ''validate'', ''locate''],
         pinentry = None \<rparr>),
      (''export'', \<lparr> required = None,
         optional = Some [''protocol'', ''keys'', ''armor'', ''extern'', ''minimal'', ''raw'',
           ''pkcs12'', ''with-sec-fprs'', ''secret''],
         pinentry = None \<rparr>),
      (''import'', \<lparr> required = Some [''data''],
         optional = Some [''protocol'', ''base64''], pinentry = None \<rparr>),
      (''delete'', \<lparr> required = Some [''key''],
         optional = Some [''protocol''], pinentry = None \<rparr>),
      (''createkey'', \<lparr> required = Some [''userid''],
         optional = Some [''algo'', ''expires''], pinentry = Some True \<rparr>),
      (''version'', \<lparr> required = None, optional = None, pinentry = None \<rparr>),
      (''config_opt'', \<lparr> required = Some [''component'', ''option''],
         optional = None, pinentry = None \<rparr>),
      (''getmore'', \<lparr> required = None, optional = None, pinentry = None \<rparr>)]"

datatype expected_format = Uint8 | Base64

text \<open>
  \<open>msg\<close> holds the own properties of \<open>this.msg\<close> and \<open>msg_prototype\<close> its prototype,
  which is \<open>Object.prototype\<close> until an assignment to \<open>__proto__\<close> replaces it.
\<close>

record Message =
  msg :: jsobject
  msg_prototype :: prototype
  expected :: "expected_format option"

text \<open>
  The catalog is an object literal, so \<open>operation in permittedOperations\<close> and
  \<open>permittedOperations[operation]\<close> also find the names of \<open>Object.prototype\<close>. What
  is found there is a function, or \<open>Object.prototype\<close> itself, whose \<open>required\<close>,
  \<open>optional\<close> and \<open>pinentry\<close> are all \<open>undefined\<close>.
\<close>

definition in_catalog :: "string \<Rightarrow> bool" where
  "in_catalog operation =
     (map_of permittedOperations operation \<noteq> None \<or> operation \<in> set Object_prototype_names)"

definition catalog_entry :: "string \<Rightarrow> OperationDef option" where
  "catalog_entry operation =
     (case map_of permittedOperations operation of
        Some d \<Rightarrow> Some d
      | None \<Rightarrow>
          if operation \<in> set Object_prototype_names
          then Some \<lparr> required = None, optional = None, pinentry = None \<rparr>
          else None)"

definition createMessage :: "string \<Rightarrow> exn + Message" where
  "createMessage operation =
     (if \<not> in_catalog operation
      then Inl (GpgmeError MSG_UNEXPECTED (JStr (''Unknown operation: '' @ operation)))
      else Inr \<lparr> msg = [(''op'', JStr operation), (''chunksize'', JNum DEFAULT_CHUNKSIZE)],
                 msg_prototype = Object_prototype,
                 expected = None \<rparr>)"

text \<open>
  \<open>permittedOperations[this.operation]\<close>: \<open>None\<close> is \<open>undefined\<close>, on which the next
  property read throws a \<open>TypeError\<close>. \<open>op\<close> is an own property of every message the
  constructor builds.
\<close>

definition opDef :: "Message \<Rightarrow> OperationDef option" where
  "opDef m = catalog_entry (js_key_string (get_prop (msg m) ''op''))"

text \<open>\<open>key in this.msg\<close>\<close>

definition in_msg :: "string \<Rightarrow> Message \<Rightarrow> bool" where
  "in_msg key m = (has_prop key (msg m) \<or> key \<in> set (inherited_names (msg_prototype m)))"

text \<open>
  \<open>this.msg[key] = value\<close>. For \<open>__proto__\<close>, when the message has no own property of
  that name and the accessor of \<open>Object.prototype\<close> is reached, no property is
  written: an object or \<open>null\<close> becomes the prototype of \<open>this.msg\<close> and any other
  value is ignored. Every other assignment writes an own property.
\<close>

definition assign :: "string \<Rightarrow> jsvalue \<Rightarrow> Message \<Rightarrow> Message" where
  "assign key v m =
     (if key = ''__proto__'' \<and> \<not> has_prop key (msg m) \<and>
         proto_setter_inherited (msg_prototype m)
      then (case v of
              JObj kvs \<Rightarrow> m \<lparr> msg_prototype := Data_prototype v \<rparr>
            | JArr xs \<Rightarrow> m \<lparr> msg_prototype := Data_prototype v \<rparr>
            | JNull \<Rightarrow> m \<lparr> msg_prototype := Null_prototype \<rparr>
            | _ \<Rightarrow> m)
      else m \<lparr> msg := set_prop key v (msg m) \<rparr>)"

definition undefined_property_message :: string where
  "undefined_property_message = ''Cannot read properties of undefined''"

text \<open>\<open>xs || []\<close>\<close>

definition or_empty :: "'a list option \<Rightarrow> 'a list" where
  "or_empty xs = (case xs of None \<Rightarrow> [] | Some ys \<Rightarrow> ys)"

definition set_chunksize :: "int \<Rightarrow> Message \<Rightarrow> Message" where
  "set_chunksize v m =
     (if v \<ge> 10 * 1024 then m \<lparr> msg := set_prop ''chunksize'' (JNum v) (msg m) \<rparr> else m)"

definition set_expected :: "expected_format option \<Rightarrow> Message \<Rightarrow> Message" where
  "set_expected v m = (case v of None \<Rightarrow> m | Some f \<Rightarrow> m \<lparr> expected := Some f \<rparr>)"

definition setParameter :: "string \<Rightarrow> jsvalue \<Rightarrow> Message \<Rightarrow> exn + Message" where
  "setParameter key v m =
     (case opDef m of
        None \<Rightarrow> Inl (TypeError undefined_property_message)
      | Some d \<Rightarrow>
          let allowed = or_empty (required d) @ or_empty (optional d)
          in if length allowed > 0 \<and> key \<notin> set allowed then Inr m
             else if v \<noteq> JUndefined \<and> v \<noteq> JNull
                  then Inr (assign key v m)
                  else Inr m)"

definition isComplete :: "Message \<Rightarrow> exn + bool" where
  "isComplete m =
     (case opDef m of
        None \<Rightarrow> Inl (TypeError undefined_property_message)
      | Some d \<Rightarrow>
          (case required d of
             None \<Rightarrow> Inr True
           | Some req \<Rightarrow> Inr (list_all (\<lambda>param. in_msg param m) req)))"

definition getMissingParams :: "Message \<Rightarrow> exn + string list" where
  "getMissingParams m =
     (case opDef m of
        None \<Rightarrow> Inl (TypeError undefined_property_message)
      | Some d \<Rightarrow>
          (case required d of
             None \<Rightarrow> Inr []
           | Some req \<Rightarrow> Inr (filter (\<lambda>param. \<not> in_msg param m) req)))"

definition requiresPinentry :: "Message \<Rightarrow> exn + bool" where
  "requiresPinentry m =
     (case opDef m of
        None \<Rightarrow> Inl (TypeError undefined_property_message)
      | Some d \<Rightarrow> Inr (pinentry d = Some True))"

text \<open>\<open>{ ...this.msg }\<close>: the own properties.\<close>

definition toJSON :: "Message \<Rightarrow> jsobject" where
  "toJSON m = msg m"

text \<open>
  \<open>Message.post\<close>. \<open>conn_post\<close> is the \<open>post\<close> of the connection in use (the one
  passed in, or a new one), acting on the world; it is reached only past the
  completeness check.
\<close>

definition Message_post :: "(jsobject \<Rightarrow> ('a, 'w) async) \<Rightarrow> Message \<Rightarrow> ('a, 'w) async" where
  "Message_post conn_post m =
     await (lift (isComplete m)) (\<lambda>complete.
       if \<not> complete
       then await (lift (getMissingParams m)) (\<lambda>missing.
              async_throw (GpgmeError MSG_INCOMPLETE
                (JStr (''Missing parameters: '' @ join '', '' missing))))
       else conn_post (msg m))"

section \<open>Signature normalizer (signature.ts)\<close>

record RawSummary =
  rsum_valid :: "bool option"
  rsum_green :: "bool option"
  rsum_red :: "bool option"
  rsum_keyRevoked :: "bool option"
  rsum_keyExpired :: "bool option"
  rsum_sigExpired :: "bool option"
  rsum_keyMissing :: "bool option"
  rsum_crlMissing :: "bool option"
  rsum_crlTooOld :: "bool option"
  rsum_badPolicy :: "bool option"
  rsum_sysError :: "bool option"
  rsum_sigsum :: "int option"

record RawNotation =
  rnot_name :: "string option"
  rnot_value :: "string option"
  rnot_human_readable :: "bool option"
  rnot_critical :: "bool option"

record RawSignature =
  rsig_fingerprint :: "string option"
  rsig_timestamp :: "int option"
  rsig_exp_timestamp :: "int option"
  rsig_wrong_key_usage :: "bool option"
  rsig_chain_model :: "bool option"
  rsig_summary :: "RawSummary option"
  rsig_validity :: "int option"
  rsig_validity_reason :: "int option"
  rsig_status_code :: "int option"
  rsig_status_string :: "string option"
  rsig_notations :: "RawNotation list option"

record SignatureSummary =
  sum_valid :: bool
  sum_green :: bool
  sum_red :: bool
  sum_keyRevoked :: bool
  sum_keyExpired :: bool
  sum_sigExpired :: bool
  sum_keyMissing :: bool
  sum_crlMissing :: bool
  sum_crlTooOld :: bool
  sum_badPolicy :: bool
  sum_sysError :: bool

record SignatureInfo =
  sig_fingerprint :: string
  sig_valid :: bool
  sig_summary :: SignatureSummary
  sig_rawSigObject :: RawSignature
  sig_status :: "string option"
  sig_created :: "int option"
  sig_expires :: "int option"

text \<open>\<open>sigObject.summary?.f ?? false\<close>\<close>

definition summary_flag :: "RawSignature \<Rightarrow> (RawSummary \<Rightarrow> bool option) \<Rightarrow> bool" where
  "summary_flag sigObject f =
     (case rsig_summary sigObject of
        None \<Rightarrow> False
      | Some s \<Rightarrow> (case f s of None \<Rightarrow> False | Some b \<Rightarrow> b))"

text \<open>
  An element of a signature array is \<open>None\<close> when it is \<open>null\<close> or not an object, which
  \<open>createSignature\<close> refuses with \<open>SIG_WRONG\<close>. The type checks on known fields only log.
\<close>

definition createSignature :: "RawSignature option \<Rightarrow> exn + SignatureInfo" where
  "createSignature sigObject =
     (case sigObject of
        None \<Rightarrow> Inl (GpgmeError SIG_WRONG (JStr ''Invalid signature object''))
      | Some s \<Rightarrow>
          let summary = \<lparr>
                sum_valid = summary_flag s rsum_valid,
                sum_green = summary_flag s rsum_green,
                sum_red = summary_flag s rsum_red,
                sum_keyRevoked = summary_flag s rsum_keyRevoked,
                sum_keyExpired = summary_flag s rsum_keyExpired,
                sum_sigExpired = summary_flag s rsum_sigExpired,
                sum_keyMissing = summary_flag s rsum_keyMissing,
                sum_crlMissing = summary_flag s rsum_crlMissing,
                sum_crlTooOld = summary_flag s rsum_crlTooOld,
                sum_badPolicy = summary_flag s rsum_badPolicy,
                sum_sysError = summary_flag s rsum_sysError \<rparr>
          in Inr \<lparr>
                sig_fingerprint =
                  (case rsig_fingerprint s of None \<Rightarrow> [] | Some f \<Rightarrow> toUpperCase f),
                sig_valid =
                  ((rsig_status_code s = Some 0 \<or> sum_valid summary) \<and> \<not> sum_red summary),
                sig_summary = summary,
                sig_rawSigObject = s,
                sig_status =
                  (case rsig_status_string s of
                     None \<Rightarrow> None
                   | Some st \<Rightarrow> if st \<noteq> [] then Some st else None),
                sig_created =
                  (case rsig_timestamp s of
                     None \<Rightarrow> None
                   | Some t \<Rightarrow> if t \<noteq> 0 then Some (timestampToDate t) else None),
                sig_expires =
                  (case rsig_exp_timestamp s of
                     None \<Rightarrow> None
                   | Some t \<Rightarrow> if t \<noteq> 0 \<and> t > 0 then Some (timestampToDate t) else None) \<rparr>)"

text \<open>
  The argument of \<open>collectSignatures\<close>: an array, or an object whose \<open>good\<close> and \<open>bad\<close>
  fields are arrays when present; anything else (\<open>SigOther\<close>) yields no signatures.
\<close>

datatype signaturesData =
    SigArray "RawSignature option list"
  | SigObject "RawSignature option list option" "RawSignature option list option"
  | SigOther

text \<open>The three loops; \<open>signatures\<close> is the array being pushed to.\<close>

fun collect_array :: "SignatureInfo list \<Rightarrow> RawSignature option list \<Rightarrow> SignatureInfo list" where
  "collect_array signatures [] = signatures"
| "collect_array signatures (sig # rest) =
     (case createSignature sig of
        Inl e \<Rightarrow> collect_array signatures rest
      | Inr parsed \<Rightarrow> collect_array (signatures @ [parsed]) rest)"

fun collect_good :: "SignatureInfo list \<Rightarrow> RawSignature option list \<Rightarrow> SignatureInfo list" where
  "collect_good signatures [] = signatures"
| "collect_good signatures (sig # rest) =
     (case createSignature sig of
        Inl e \<Rightarrow> collect_good signatures rest
      | Inr parsed \<Rightarrow> collect_good (signatures @ [parsed\<lparr>sig_valid := True\<rparr>]) rest)"

text \<open>
  In the \<open>bad\<close> loop \<open>sig\<close> is an object whenever \<open>createSignature\<close> returned, so
  \<open>sig.status_code\<close> and \<open>sig.validity\<close> are read from the raw record kept in the
  parsed one.
\<close>

definition bad_validity :: "SignatureInfo \<Rightarrow> SignatureInfo" where
  "bad_validity parsed =
     (let sig = sig_rawSigObject parsed in
      if sum_keyMissing (sig_summary parsed) \<or> rsig_status_code sig = Some 9
      then parsed\<lparr>sig_valid := False\<rparr>
      else if rsig_status_code sig = Some 0 \<and> rsig_validity sig = Some 3
      then parsed\<lparr>sig_valid := True\<rparr>
      else parsed\<lparr>sig_valid := False\<rparr>)"

fun collect_bad :: "SignatureInfo list \<Rightarrow> RawSignature option list \<Rightarrow> SignatureInfo list" where
  "collect_bad signatures [] = signatures"
| "collect_bad signatures (sig # rest) =
     (case createSignature sig of
        Inl e \<Rightarrow> collect_bad signatures rest
      | Inr parsed \<Rightarrow> collect_bad (signatures @ [bad_validity parsed]) rest)"

definition collectSignatures :: "signaturesData \<Rightarrow> SignatureInfo list" where
  "collectSignatures signaturesData =
     (case signaturesData of
        SigArray sigs \<Rightarrow> collect_array [] sigs
      | SigObject good bad \<Rightarrow>
          (let signatures1 = (case good of None \<Rightarrow> [] | Some g \<Rightarrow> collect_good [] g)
           in (case bad of None \<Rightarrow> signatures1 | Some b \<Rightarrow> collect_bad signatures1 b))
      | SigOther \<Rightarrow> [])"

definition allSignaturesValid :: "SignatureInfo list \<Rightarrow> bool" where
  "allSignaturesValid signatures =
     (if length signatures = 0 then False else list_all sig_valid signatures)"

section \<open>Key normalizer (helpers.ts, key.ts)\<close>

definition isHexDigit :: "char \<Rightarrow> bool" where
  "isHexDigit c =
     (let n = (of_char c :: nat)
      in (48 \<le> n \<and> n \<le> 57) \<or> (65 \<le> n \<and> n \<le> 70) \<or> (97 \<le> n \<and> n \<le> 102))"

text \<open>\<open>/^[0-9A-Fa-f]{40}$/.test(value)\<close>\<close>

definition isFingerprint :: "string \<Rightarrow> bool" where
  "isFingerprint v = (length v = 40 \<and> list_all isHexDigit v)"

text \<open>\<open>s.slice(-n)\<close>\<close>

definition slice_last :: "nat \<Rightarrow> string \<Rightarrow> string" where
  "slice_last n s = drop (length s - n) s"

datatype key_pattern = PatString string | PatArray "string list"

text \<open>\<open>if (pattern)\<close>: an empty string is falsy, an array never is.\<close>

fun pattern_truthy :: "key_pattern option \<Rightarrow> bool" where
  "pattern_truthy None = False"
| "pattern_truthy (Some (PatString s)) = (s \<noteq> [])"
| "pattern_truthy (Some (PatArray xs)) = True"

definition toKeyIdArray :: "key_pattern option \<Rightarrow> string list" where
  "toKeyIdArray ks =
     (if \<not> pattern_truthy ks then []
      else let keyArray = (case ks of Some (PatArray xs) \<Rightarrow> xs
                                     | Some (PatString s) \<Rightarrow> [s]
                                     | None \<Rightarrow> [])
           in map toUpperCase (filter (\<lambda>k. length k > 0) keyArray))"

record RawSubKey =
  rsk_keyid :: "string option"
  rsk_fingerprint :: "string option"
  rsk_timestamp :: "int option"
  rsk_expires :: "int option"
  rsk_revoked :: "bool option"
  rsk_expired :: "bool option"
  rsk_disabled :: "bool option"
  rsk_invalid :: "bool option"
  rsk_can_encrypt :: "bool option"
  rsk_can_sign :: "bool option"
  rsk_can_certify :: "bool option"
  rsk_can_authenticate :: "bool option"
  rsk_pubkey_algo_name :: "string option"
  rsk_length :: "int option"
  rsk_curve :: "string option"
  rsk_is_cardkey :: "bool option"
  rsk_card_number :: "string option"

record RawUserId =
  ruid_uid :: "string option"
  ruid_name :: "string option"
  ruid_email :: "string option"
  ruid_comment :: "string option"
  ruid_revoked :: "bool option"
  ruid_invalid :: "bool option"

record RawKeyData =
  rk_fingerprint :: string
  rk_revoked :: "bool option"
  rk_expired :: "bool option"
  rk_disabled :: "bool option"
  rk_invalid :: "bool option"
  rk_can_encrypt :: "bool option"
  rk_can_sign :: "bool option"
  rk_can_certify :: "bool option"
  rk_can_authenticate :: "bool option"
  rk_secret :: "bool option"
  rk_last_update :: "int option"
  rk_origin :: "int option"
  rk_subkeys :: "RawSubKey list option"
  rk_userids :: "RawUserId list option"

record SubKey =
  sk_keyId :: string
  sk_fingerprint :: string
  sk_created :: int
  sk_expires :: "int option"
  sk_isRevoked :: bool
  sk_isExpired :: bool
  sk_isDisabled :: bool
  sk_isInvalid :: bool
  sk_canEncrypt :: bool
  sk_canSign :: bool
  sk_canCertify :: bool
  sk_canAuthenticate :: bool
  sk_algorithm :: string
  sk_length :: int
  sk_curve :: "string option"
  sk_isCardKey :: bool
  sk_cardNumber :: "string option"

record UserId =
  uid_uid :: string
  uid_name :: string
  uid_email :: string
  uid_comment :: "string option"
  uid_isRevoked :: bool
  uid_isInvalid :: bool

record Key =
  fingerprint :: string
  keyId :: string
  userIds :: "UserId list"
  subkeys :: "SubKey list"
  hasSecret :: bool
  canEncrypt :: bool
  canSign :: bool
  canCertify :: bool
  canAuthenticate :: bool
  isRevoked :: bool
  isExpired :: bool
  isDisabled :: bool
  isInvalid :: bool
  created :: int
  expires :: "int option"

text \<open>\<open>v ?? d\<close>\<close>

definition nullish :: "'a option \<Rightarrow> 'a \<Rightarrow> 'a" where
  "nullish v d = (case v of None \<Rightarrow> d | Some a \<Rightarrow> a)"

definition parseSubKey :: "RawSubKey \<Rightarrow> SubKey" where
  "parseSubKey raw = \<lparr>
     sk_keyId = (case rsk_keyid raw of None \<Rightarrow> [] | Some k \<Rightarrow> toUpperCase k),
     sk_fingerprint = (case rsk_fingerprint raw of None \<Rightarrow> [] | Some f \<Rightarrow> toUpperCase f),
     sk_created =
       (case rsk_timestamp raw of
          None \<Rightarrow> 0
        | Some t \<Rightarrow> if t \<noteq> 0 then timestampToDate t else 0),
     sk_expires =
       (case rsk_expires raw of
          None \<Rightarrow> None
        | Some t \<Rightarrow> if t \<noteq> 0 \<and> t > 0 then Some (timestampToDate t) else None),
     sk_isRevoked = nullish (rsk_revoked raw) False,
     sk_isExpired = nullish (rsk_expired raw) False,
     sk_isDisabled = nullish (rsk_disabled raw) False,
     sk_isInvalid = nullish (rsk_invalid raw) False,
     sk_canEncrypt = nullish (rsk_can_encrypt raw) False,
     sk_canSign = nullish (rsk_can_sign raw) False,
     sk_canCertify = nullish (rsk_can_certify raw) False,
     sk_canAuthenticate = nullish (rsk_can_authenticate raw) False,
     sk_algorithm = nullish (rsk_pubkey_algo_name raw) [],
     sk_length = nullish (rsk_length raw) 0,
     sk_curve = rsk_curve raw,
     sk_isCardKey = nullish (rsk_is_cardkey raw) False,
     sk_cardNumber = rsk_card_number raw \<rparr>"

definition parseUserId :: "RawUserId \<Rightarrow> UserId" where
  "parseUserId raw = \<lparr>
     uid_uid = nullish (ruid_uid raw) [],
     uid_name = nullish (ruid_name raw) [],
     uid_email = nullish (ruid_email raw) [],
     uid_comment = ruid_comment raw,
     uid_isRevoked = nullish (ruid_revoked raw) False,
     uid_isInvalid = nullish (ruid_invalid raw) False \<rparr>"

text \<open>\<open>{ fingerprint: normalizedFpr }\<close>: the record with that field alone.\<close>

definition minimal_keyData :: "string \<Rightarrow> RawKeyData" where
  "minimal_keyData normalizedFpr = \<lparr>
     rk_fingerprint = normalizedFpr,
     rk_revoked = None, rk_expired = None, rk_disabled = None, rk_invalid = None,
     rk_can_encrypt = None, rk_can_sign = None, rk_can_certify = None,
     rk_can_authenticate = None, rk_secret = None, rk_last_update = None,
     rk_origin = None, rk_subkeys = None, rk_userids = None \<rparr>"

definition createKey :: "string \<Rightarrow> RawKeyData option \<Rightarrow> exn + Key" where
  "createKey fpr data =
     (if \<not> isFingerprint fpr
      then Inl (GpgmeError KEY_INVALID (JStr (''Invalid fingerprint: '' @ fpr)))
      else
        let normalizedFpr = toUpperCase fpr;
            keyData =
              (case data of
                 None \<Rightarrow> minimal_keyData normalizedFpr
               | Some d \<Rightarrow>
                   if toUpperCase (rk_fingerprint d) = normalizedFpr then d
                   else minimal_keyData normalizedFpr);
            subkeys = map parseSubKey (or_empty (rk_subkeys keyData));
            userIds = map parseUserId (or_empty (rk_userids keyData));
            primarySubkey = (case subkeys of [] \<Rightarrow> None | sk # rest \<Rightarrow> Some sk);
            created = (case primarySubkey of None \<Rightarrow> 0 | Some sk \<Rightarrow> sk_created sk);
            expires = (case primarySubkey of None \<Rightarrow> None | Some sk \<Rightarrow> sk_expires sk)
        in Inr \<lparr>
             fingerprint = normalizedFpr,
             keyId = slice_last 16 normalizedFpr,
             userIds = userIds,
             subkeys = subkeys,
             hasSecret = nullish (rk_secret keyData) False,
             canEncrypt = nullish (rk_can_encrypt keyData) (list_ex sk_canEncrypt subkeys),
             canSign = nullish (rk_can_sign keyData) (list_ex sk_canSign subkeys),
             canCertify = nullish (rk_can_certify keyData) (list_ex sk_canCertify subkeys),
             canAuthenticate =
               nullish (rk_can_authenticate keyData) (list_ex sk_canAuthenticate subkeys),
             isRevoked = nullish (rk_revoked keyData) False,
             isExpired = nullish (rk_expired keyData) False,
             isDisabled = nullish (rk_disabled keyData) False,
             isInvalid = nullish (rk_invalid keyData) False,
             created = created,
             expires = expires \<rparr>)"

text \<open>
  \<open>createKeyWithMethods\<close> adds the methods \<open>getArmor\<close>, \<open>delete\<close> and \<open>refresh\<close> to the
  record that \<open>createKey\<close> returns; the record is the value modelled here.
\<close>

definition createKeyWithMethods :: "string \<Rightarrow> RawKeyData option \<Rightarrow> exn + Key" where
  "createKeyWithMethods fpr data = createKey fpr data"

section \<open>Keyring (keyring.ts)\<close>

text \<open>
  The reply to a posted message as the keyring reads it: \<open>result.keys\<close>,
  \<open>result.option\<close>, \<open>response.imports\<close>, and the numeric feedback counters of an
  import reply by name.
\<close>

record ConfigOption =
  opt_value :: "string option list option"

record RawImport =
  imp_fingerprint :: string
  imp_status :: int

record Response =
  resp_keys :: "RawKeyData list option"
  resp_option :: "ConfigOption option"
  resp_imports :: "RawImport list option"
  resp_counters :: "(string \<times> int) list"

record GetKeysOptions =
  opt_pattern :: "key_pattern option"
  opt_prepareSync :: bool
  opt_search :: bool

text \<open>\<open>xs.map(f)\<close> where \<open>f\<close> may throw: the first exception ends the loop.\<close>

fun map_throwing :: "('a \<Rightarrow> exn + 'b) \<Rightarrow> 'a list \<Rightarrow> exn + 'b list" where
  "map_throwing f [] = Inr []"
| "map_throwing f (x # xs) =
     (case f x of
        Inl e \<Rightarrow> Inl e
      | Inr y \<Rightarrow> (case map_throwing f xs of Inl e \<Rightarrow> Inl e | Inr ys \<Rightarrow> Inr (y # ys)))"

text \<open>The message of \<open>getKeys\<close>: \<open>keylist\<close> with \<open>keys\<close>, \<open>secret\<close>, \<open>sigs\<close>, \<open>locate\<close>.\<close>

definition set_keys_pattern :: "key_pattern option \<Rightarrow> Message \<Rightarrow> exn + Message" where
  "set_keys_pattern pattern m =
     (if pattern_truthy pattern
      then setParameter ''keys'' (JArr (map JStr (toKeyIdArray pattern))) m
      else Inr m)"

text \<open>The merge of the secret key list into \<open>rawKeys\<close>.\<close>

definition merge_secret :: "RawKeyData list option \<Rightarrow> RawKeyData list \<Rightarrow> RawKeyData list" where
  "merge_secret secretKeys rawKeys =
     (case secretKeys of
        None \<Rightarrow> rawKeys
      | Some sks \<Rightarrow>
          let secretFprs = map (\<lambda>k. toUpperCase (rk_fingerprint k)) sks
          in map (\<lambda>key. if toUpperCase (rk_fingerprint key) \<in> set secretFprs
                         then key \<lparr> rk_secret := Some True \<rparr> else key) rawKeys)"

definition getKeys ::
    "(jsobject \<Rightarrow> (Response, 'w) async) \<Rightarrow> GetKeysOptions \<Rightarrow> (Key list, 'w) async" where
  "getKeys conn_post options =
     await (lift (createMessage ''keylist'')) (\<lambda>m0.
     await (lift (set_keys_pattern (opt_pattern options) m0)) (\<lambda>m1.
     await (lift (setParameter ''sigs'' (JBool True) m1)) (\<lambda>m2.
     await (lift (if opt_search options then setParameter ''locate'' (JBool True) m2
                  else Inr m2)) (\<lambda>m3.
     await (Message_post conn_post m3) (\<lambda>result.
       case resp_keys result of
         None \<Rightarrow> async_return []
       | Some rawKeys \<Rightarrow>
           if length rawKeys = 0 then async_return []
           else if opt_prepareSync options
           then
             await (lift (createMessage ''keylist'')) (\<lambda>n0.
             await (lift (set_keys_pattern (opt_pattern options) n0)) (\<lambda>n1.
             await (lift (setParameter ''secret'' (JBool True) n1)) (\<lambda>n2.
             await (lift (setParameter ''sigs'' (JBool True) n2)) (\<lambda>n3.
             await (Message_post conn_post n3) (\<lambda>secretResult.
               lift (map_throwing
                       (\<lambda>keyData. createKeyWithMethods (rk_fingerprint keyData) (Some keyData))
                       (merge_secret (resp_keys secretResult) rawKeys)))))))
           else lift (map_throwing
                        (\<lambda>keyData. createKey (rk_fingerprint keyData) (Some keyData))
                        rawKeys))))))"






subsection \<open>importKey\<close>

text \<open>
  The operands of \<open>&\<close> are converted to 32-bit two's complement integers first
  (\<open>ToInt32\<close>); the result is such an integer.
\<close>

definition ToInt32 :: "int \<Rightarrow> int" where
  "ToInt32 n = signed_take_bit 31 n"

definition js_bitand :: "int \<Rightarrow> int \<Rightarrow> int" where
  "js_bitand a b = ToInt32 a AND ToInt32 b"

datatype import_status = newkey | change | nochange

record ImportChanges =
  chg_userId :: bool
  chg_signature :: bool
  chg_subkey :: bool

record ImportInfo =
  info_status :: import_status
  info_changes :: ImportChanges

record ImportedKey =
  ik_key :: Key
  ik_status :: import_status
  ik_changes :: ImportChanges

record ImportResult =
  res_Keys :: "ImportedKey list"
  res_summary :: "(string \<times> int) list"

definition importFeedbackValues :: "string list" where
  "importFeedbackValues =
     [''considered'', ''no_user_id'', ''imported'', ''imported_rsa'', ''unchanged'',
      ''new_user_ids'', ''new_sub_keys'', ''new_signatures'', ''new_revocations'',
      ''secret_read'', ''secret_imported'', ''secret_unchanged'', ''skipped_new_keys'',
      ''not_imported'', ''skipped_v3_keys'']"

definition initial_summary :: "(string \<times> int) list" where
  "initial_summary =
     [(''considered'', 0), (''imported'', 0), (''unchanged'', 0), (''newUserIds'', 0),
      (''newSubKeys'', 0), (''newSignatures'', 0), (''newRevocations'', 0),
      (''secretRead'', 0), (''secretImported'', 0), (''secretUnchanged'', 0),
      (''notImported'', 0)]"

definition isLowerLetter :: "char \<Rightarrow> bool" where
  "isLowerLetter c = (let n = (of_char c :: nat) in 97 \<le> n \<and> n \<le> 122)"

text \<open>\<open>key.replace(/_([a-z])/g, (_, c) => c.toUpperCase())\<close>\<close>

fun camelKey :: "string \<Rightarrow> string" where
  "camelKey [] = []"
| "camelKey [c] = [c]"
| "camelKey (c # d # rest) =
     (if c = CHR ''_'' \<and> isLowerLetter d then toUpperCase_char d # camelKey rest
      else c # camelKey (d # rest))"

text \<open>
  Assignment \<open>summary[k] = n\<close>. The keys are the camel-cased feedback names, none of
  which is an array index or a name of \<open>Object.prototype\<close>, so a new key goes last.
\<close>

fun set_counter :: "string \<Rightarrow> int \<Rightarrow> (string \<times> int) list \<Rightarrow> (string \<times> int) list" where
  "set_counter k v [] = [(k, v)]"
| "set_counter k v ((k', v') # rest) =
     (if k' = k then (k, v) # rest else (k', v') # set_counter k v rest)"

fun build_summary ::
    "(string \<times> int) list \<Rightarrow> string list \<Rightarrow> (string \<times> int) list \<Rightarrow> (string \<times> int) list" where
  "build_summary response [] summary = summary"
| "build_summary response (key # rest) summary =
     (case map_of response key of
        None \<Rightarrow> build_summary response rest summary
      | Some n \<Rightarrow> build_summary response rest (set_counter (camelKey key) n summary))"

text \<open>The body of the loop over \<open>imports\<close>: the status and the changes of one entry.\<close>

definition decode_status :: "int \<Rightarrow> ImportInfo" where
  "decode_status st = \<lparr>
     info_status =
       (if st = 0 then nochange
        else if js_bitand st 1 = 1 then newkey
        else change),
     info_changes = \<lparr>
       chg_userId = (js_bitand st 2 = 2),
       chg_signature = (js_bitand st 4 = 4),
       chg_subkey = (js_bitand st 8 = 8) \<rparr> \<rparr>"

text \<open>The loop: it fills \<open>fingerprints\<close> and the map \<open>importInfos\<close>.\<close>

fun import_loop ::
    "RawImport list \<Rightarrow> string list \<times> (string \<rightharpoonup> ImportInfo)
       \<Rightarrow> string list \<times> (string \<rightharpoonup> ImportInfo)" where
  "import_loop [] acc = acc"
| "import_loop (imp # rest) (fingerprints, importInfos) =
     (let fpr = toUpperCase (imp_fingerprint imp)
      in import_loop rest
           (fingerprints @ [fpr], importInfos(fpr \<mapsto> decode_status (imp_status imp))))"

text \<open>The two loops that build \<open>importedKeys\<close>.\<close>

fun imported_from_keys :: "(string \<rightharpoonup> ImportInfo) \<Rightarrow> Key list \<Rightarrow> ImportedKey list" where
  "imported_from_keys importInfos [] = []"
| "imported_from_keys importInfos (key # rest) =
     (case importInfos (fingerprint key) of
        None \<Rightarrow> imported_from_keys importInfos rest
      | Some info \<Rightarrow>
          \<lparr> ik_key = key, ik_status = info_status info, ik_changes = info_changes info \<rparr>
            # imported_from_keys importInfos rest)"

fun imported_from_fingerprints ::
    "(string \<rightharpoonup> ImportInfo) \<Rightarrow> string list \<Rightarrow> exn + ImportedKey list" where
  "imported_from_fingerprints importInfos [] = Inr []"
| "imported_from_fingerprints importInfos (fpr # rest) =
     (case importInfos fpr of
        None \<Rightarrow> imported_from_fingerprints importInfos rest
      | Some info \<Rightarrow>
          (case createKey fpr None of
             Inl e \<Rightarrow> Inl e
           | Inr key \<Rightarrow>
               (case imported_from_fingerprints importInfos rest of
                  Inl e \<Rightarrow> Inl e
                | Inr iks \<Rightarrow>
                    Inr (\<lparr> ik_key = key, ik_status = info_status info,
                           ik_changes = info_changes info \<rparr> # iks))))"

text \<open>
  \<open>armored\<close> is \<open>None\<close> when the argument is not a string. The reply's \<open>imports\<close> and
  counters are read from \<open>Response\<close>.
\<close>

definition importKey ::
    "(jsobject \<Rightarrow> (Response, 'w) async) \<Rightarrow> string option \<Rightarrow> bool \<Rightarrow> (ImportResult, 'w) async" where
  "importKey conn_post armored prepareSync =
     (case armored of
        None \<Rightarrow> async_throw (GpgmeError PARAM_WRONG (JStr ''Armored key data is required''))
      | Some a \<Rightarrow>
          if a = [] then async_throw (GpgmeError PARAM_WRONG (JStr ''Armored key data is required''))
          else
            await (lift (createMessage ''import'')) (\<lambda>m0.
            await (lift (setParameter ''data'' (JStr a) m0)) (\<lambda>m1.
            await (Message_post conn_post m1) (\<lambda>response.
              let summary = build_summary (resp_counters response) importFeedbackValues
                              initial_summary;
                  imports = or_empty (resp_imports response)
              in if length imports = 0
                 then async_return \<lparr> res_Keys = [], res_summary = summary \<rparr>
                 else
                   let (fingerprints, importInfos) = import_loop imports ([], Map.empty)
                   in if prepareSync
                      then await (getKeys conn_post
                                    \<lparr> opt_pattern = Some (PatArray fingerprints),
                                      opt_prepareSync = True, opt_search = False \<rparr>) (\<lambda>ks.
                             async_return \<lparr> res_Keys = imported_from_keys importInfos ks,
                                            res_summary = summary \<rparr>)
                      else await (lift (imported_from_fingerprints importInfos fingerprints))
                             (\<lambda>iks. async_return \<lparr> res_Keys = iks, res_summary = summary \<rparr>)))))"

section \<open>Sample inputs\<close>

definition no_summary :: RawSummary where
  "no_summary = \<lparr> rsum_valid = None, rsum_green = None, rsum_red = None,
     rsum_keyRevoked = None, rsum_keyExpired = None, rsum_sigExpired = None,
     rsum_keyMissing = None, rsum_crlMissing = None, rsum_crlTooOld = None,
     rsum_badPolicy = None, rsum_sysError = None, rsum_sigsum = None \<rparr>"

definition no_signature :: RawSignature where
  "no_signature = \<lparr> rsig_fingerprint = None, rsig_timestamp = None,
     rsig_exp_timestamp = None, rsig_wrong_key_usage = None, rsig_chain_model = None,
     rsig_summary = None, rsig_validity = None, rsig_validity_reason = None,
     rsig_status_code = None, rsig_status_string = None, rsig_notations = None \<rparr>"

definition sig_success :: RawSignature where
  "sig_success = no_signature \<lparr> rsig_fingerprint := Some ''ab12'',
     rsig_status_code := Some 0, rsig_summary := Some (no_summary \<lparr> rsum_red := Some False \<rparr>) \<rparr>"

definition sig_red :: RawSignature where
  "sig_red = no_signature \<lparr> rsig_status_code := Some 0,
     rsig_summary := Some (no_summary \<lparr> rsum_valid := Some True, rsum_red := Some True \<rparr>) \<rparr>"

definition sig_marginal :: RawSignature where
  "sig_marginal = no_signature \<lparr> rsig_status_code := Some 0, rsig_validity := Some 3 \<rparr>"

definition sig_keyMissing :: RawSignature where
  "sig_keyMissing = no_signature \<lparr> rsig_status_code := Some 0, rsig_validity := Some 3,
     rsig_summary := Some (no_summary \<lparr> rsum_keyMissing := Some True \<rparr>) \<rparr>"

text \<open>Notions used to state the properties of an exchange.\<close>

abbreviation fragment :: "RawResponse \<Rightarrow> string" where
  "fragment r \<equiv> (case rr_response r of None \<Rightarrow> [] | Some s \<Rightarrow> s)"

abbreviation inbound :: "RawResponse list \<Rightarrow> event list" where
  "inbound rs \<equiv> map (\<lambda>r. OnMessage (Some r)) rs"

text \<open>
  A platform that knows a few texts: the base64 of \<open>{}\<close> and of an error envelope,
  and one base64 text that decodes to something that is not JSON.
\<close>

definition error_json :: string where
  \<open>error_json = ''{"type":"error","msg":"No data"}''\<close>

definition sample_atob :: "string \<Rightarrow> thrown + string" where
  "sample_atob s =
     (if s = ''e30='' then Inr ''{}''
      else if s = ''eyJ0eXBlIjoiZXJyb3IiLCJtc2ciOiJObyBkYXRhIn0='' then Inr error_json
      else if s = ''b29wcw=='' then Inr ''oops''
      else Inl (Error ''The string to be decoded is not correctly encoded.''))"

definition sample_JSON_parse :: "string \<Rightarrow> thrown + jsvalue" where
  "sample_JSON_parse s =
     (if s = ''{}'' then Inr (JObj [])
      else if s = error_json
      then Inr (JObj [(''type'', JStr ''error''), (''msg'', JStr ''No data'')])
      else Inl (Error ''Unexpected token''))"

definition sample_platform :: Platform where
  "sample_platform = \<lparr> atob = sample_atob, JSON_parse = sample_JSON_parse \<rparr>"

definition chunk :: "string \<Rightarrow> bool \<Rightarrow> RawResponse" where
  "chunk s m = \<lparr> rr_response = Some s, rr_more = (if m then Some True else None) \<rparr>"

definition version_message :: jsobject where
  "version_message = [(''op'', JStr ''version''), (''chunksize'', JNum 1047552)]"

definition zero_chunksize_message :: jsobject where
  "zero_chunksize_message = [(''op'', JStr ''version''), (''chunksize'', JNum 0)]"

text \<open>A message with the given own properties, as the constructor leaves the rest.\<close>

definition plain_message :: "jsobject \<Rightarrow> Message" where
  "plain_message obj = \<lparr> msg = obj, msg_prototype = Object_prototype, expected = None \<rparr>"

definition encrypt_without_keys :: Message where
  "encrypt_without_keys =
     plain_message
       [(''op'', JStr ''encrypt''), (''chunksize'', JNum 1047552), (''data'', JStr ''hi'')]"

definition fpr_a :: string where
  "fpr_a = ''aaaaaaaaaaaaaaaaaaaaaaaaaaaaaaaaaaaaaaaa''"

definition fpr_b :: string where
  "fpr_b = ''BBBBBBBBBBBBBBBBBBBBBBBBBBBBBBBBBBBBBBBB''"

definition fpr_c :: string where
  "fpr_c = ''0123456789abcdef0123456789ABCDEF01234567''"

definition no_response :: Response where
  "no_response = \<lparr> resp_keys = None, resp_option = None, resp_imports = None,
     resp_counters = [] \<rparr>"




text \<open>
  An engine for \<open>importKey\<close>: an \<open>import\<close> request is answered with the given import
  entries and no counters, every other request with the given key list.
\<close>

definition import_engine ::
    "RawImport list \<Rightarrow> RawKeyData list \<Rightarrow> jsobject \<Rightarrow> (Response, nat) async" where
  "import_engine imps ks m =
     (\<lambda>n. if get_prop m ''op'' = JStr ''import''
          then (Some (Inr (no_response \<lparr> resp_imports := Some imps \<rparr>)), Suc n)
          else (Some (Inr (no_response \<lparr> resp_keys := Some ks \<rparr>)), Suc n))"

text \<open>Two import entries for one fingerprint, with status 1 and then status 2.\<close>

definition repeated_imports :: "RawImport list" where
  "repeated_imports =
     [\<lparr> imp_fingerprint = fpr_b, imp_status = 1 \<rparr>,
      \<lparr> imp_fingerprint = fpr_b, imp_status = 2 \<rparr>]"

text \<open>Two import entries for two fingerprints, with status 1 and status 2.\<close>

definition distinct_imports :: "RawImport list" where
  "distinct_imports =
     [\<lparr> imp_fingerprint = fpr_a, imp_status = 1 \<rparr>,
      \<lparr> imp_fingerprint = fpr_c, imp_status = 2 \<rparr>]"

text \<open>
  Three import entries; the first and the third have the same fingerprint up to the case
  of its letters.
\<close>

definition mixed_imports :: "RawImport list" where
  "mixed_imports =
     [\<lparr> imp_fingerprint = fpr_a, imp_status = 1 \<rparr>,
      \<lparr> imp_fingerprint = fpr_c, imp_status = 2 \<rparr>,
      \<lparr> imp_fingerprint = ''AAAAAAAAAAAAAAAAAAAAAAAAAAAAAAAAAAAAAAAA'', imp_status = 12 \<rparr>]"

text \<open>The key that \<open>createKey\<close> makes from a normalized fingerprint alone.\<close>

definition fingerprint_only_key :: "string \<Rightarrow> Key" where
  "fingerprint_only_key fpr = \<lparr>
     fingerprint = fpr, keyId = drop 24 fpr, userIds = [], subkeys = [],
     hasSecret = False, canEncrypt = False, canSign = False, canCertify = False,
     canAuthenticate = False, isRevoked = False, isExpired = False, isDisabled = False,
     isInvalid = False, created = 0, expires = None \<rparr>"

section \<open>Signature normalizer: properties\<close>

text \<open>
  C10. \<open>allSignaturesValid\<close> is false on the empty list, and on a non-empty list it is
  true exactly when every entry has \<open>valid = true\<close>.
\<close>

theorem allSignaturesValid_iff:
  "allSignaturesValid [] = False \<and>
   (signatures \<noteq> [] \<longrightarrow>
      (allSignaturesValid signatures \<longleftrightarrow> (\<forall>s \<in> set signatures. sig_valid s)))"
  by (simp add: allSignaturesValid_def list_all_iff)

theorem allSignaturesValid_iff_witness:
  "allSignaturesValid (collectSignatures (SigArray [Some sig_success, None])) \<and>
   \<not> allSignaturesValid (collectSignatures (SigArray [Some sig_success, Some sig_red]))"
  using allSignaturesValid_iff [of "collectSignatures (SigArray [Some sig_success, None])"]
    allSignaturesValid_iff [of "collectSignatures (SigArray [Some sig_success, Some sig_red])"]
  by (simp add: collectSignatures_def createSignature_def summary_flag_def
      sig_success_def sig_red_def no_signature_def no_summary_def)

text \<open>Helper facts on the three loops of \<open>collectSignatures\<close>.\<close>

lemma createSignature_Some:
  "\<exists>p. createSignature (Some s) = Inr p"
  by (simp add: createSignature_def Let_def)

lemma createSignature_None:
  "createSignature None = Inl (GpgmeError SIG_WRONG (JStr ''Invalid signature object''))"
  by (simp add: createSignature_def)

lemma createSignature_raw:
  "createSignature (Some s) = Inr p \<Longrightarrow> sig_rawSigObject p = s"
  by (auto simp: createSignature_def Let_def)

lemma createSignature_valid:
  "createSignature (Some s) = Inr p \<Longrightarrow>
     sig_valid p =
       ((rsig_status_code s = Some 0 \<or> summary_flag s rsum_valid) \<and> \<not> summary_flag s rsum_red)"
  by (auto simp: createSignature_def Let_def)

lemma createSignature_keyMissing:
  "createSignature (Some s) = Inr p \<Longrightarrow>
     sum_keyMissing (sig_summary p) = summary_flag s rsum_keyMissing"
  by (auto simp: createSignature_def Let_def)

lemma summary_flag_iff:
  "summary_flag s f \<longleftrightarrow> (\<exists>sm. rsig_summary s = Some sm \<and> f sm = Some True)"
  by (auto simp: summary_flag_def split: option.splits)

lemma collect_array_acc:
  "collect_array acc sigs =
     acc @ map (\<lambda>s. projr (createSignature s)) (filter (\<lambda>s. s \<noteq> None) sigs)"
proof (induction sigs arbitrary: acc)
  case Nil
  show ?case by simp
next
  case (Cons sig rest)
  show ?case
  proof (cases sig)
    case None
    then show ?thesis using Cons.IH by (simp add: createSignature_None)
  next
    case (Some s)
    obtain p where "createSignature (Some s) = Inr p"
      using createSignature_Some by blast
    then show ?thesis using Some Cons.IH by simp
  qed
qed

lemma collect_good_acc:
  "collect_good acc sigs =
     acc @ map (\<lambda>s. (projr (createSignature s))\<lparr>sig_valid := True\<rparr>)
             (filter (\<lambda>s. s \<noteq> None) sigs)"
proof (induction sigs arbitrary: acc)
  case Nil
  show ?case by simp
next
  case (Cons sig rest)
  show ?case
  proof (cases sig)
    case None
    then show ?thesis using Cons.IH by (simp add: createSignature_None)
  next
    case (Some s)
    obtain p where "createSignature (Some s) = Inr p"
      using createSignature_Some by blast
    then show ?thesis using Some Cons.IH by simp
  qed
qed

lemma collect_bad_acc:
  "collect_bad acc sigs =
     acc @ map (\<lambda>s. bad_validity (projr (createSignature s)))
             (filter (\<lambda>s. s \<noteq> None) sigs)"
proof (induction sigs arbitrary: acc)
  case Nil
  show ?case by simp
next
  case (Cons sig rest)
  show ?case
  proof (cases sig)
    case None
    then show ?thesis using Cons.IH by (simp add: createSignature_None)
  next
    case (Some s)
    obtain p where "createSignature (Some s) = Inr p"
      using createSignature_Some by blast
    then show ?thesis using Some Cons.IH by simp
  qed
qed

lemma projr_createSignature_raw:
  "sig_rawSigObject (projr (createSignature (Some s))) = s"
  using createSignature_Some [of s] createSignature_raw by force

lemma bad_validity_raw:
  "sig_rawSigObject (bad_validity p) = sig_rawSigObject p"
  by (simp add: bad_validity_def Let_def)

lemma bad_validity_summary:
  "sig_summary (bad_validity p) = sig_summary p"
  by (simp add: bad_validity_def Let_def)

lemma bad_validity_valid:
  "sig_valid (bad_validity p) \<longleftrightarrow>
     \<not> sum_keyMissing (sig_summary p) \<and> rsig_status_code (sig_rawSigObject p) \<noteq> Some 9 \<and>
     rsig_status_code (sig_rawSigObject p) = Some 0 \<and> rsig_validity (sig_rawSigObject p) = Some 3"
  by (simp add: bad_validity_def Let_def)

text \<open>
  C4. Every record parsed from a flat list (entries that are not objects are dropped, the
  others kept in order) has
  \<open>valid = (status_code == 0 OR summary.valid) AND NOT summary.red\<close>, where
  \<open>summary.valid\<close> and \<open>summary.red\<close> count as false when the raw record has no summary
  or the summary lacks the field.
\<close>

theorem flat_list_valid:
  "map sig_rawSigObject (collectSignatures (SigArray sigs))
     = map the (filter (\<lambda>s. s \<noteq> None) sigs) \<and>
   (\<forall>p \<in> set (collectSignatures (SigArray sigs)).
      sig_valid p \<longleftrightarrow>
        (rsig_status_code (sig_rawSigObject p) = Some 0 \<or>
           (\<exists>sm. rsig_summary (sig_rawSigObject p) = Some sm \<and> rsum_valid sm = Some True)) \<and>
        \<not> (\<exists>sm. rsig_summary (sig_rawSigObject p) = Some sm \<and> rsum_red sm = Some True))"
proof (intro conjI ballI)
  show "map sig_rawSigObject (collectSignatures (SigArray sigs))
          = map the (filter (\<lambda>s. s \<noteq> None) sigs)"
    by (auto simp: collectSignatures_def collect_array_acc projr_createSignature_raw)
next
  fix p
  assume "p \<in> set (collectSignatures (SigArray sigs))"
  then obtain s where p: "p = projr (createSignature (Some s))"
    by (auto simp: collectSignatures_def collect_array_acc)
  obtain q where q: "createSignature (Some s) = Inr q"
    using createSignature_Some by blast
  with p have "p = q" by simp
  with q have "createSignature (Some s) = Inr p" by simp
  then show "sig_valid p \<longleftrightarrow>
        (rsig_status_code (sig_rawSigObject p) = Some 0 \<or>
           (\<exists>sm. rsig_summary (sig_rawSigObject p) = Some sm \<and> rsum_valid sm = Some True)) \<and>
        \<not> (\<exists>sm. rsig_summary (sig_rawSigObject p) = Some sm \<and> rsum_red sm = Some True)"
    using createSignature_valid [of s p] createSignature_raw [of s p]
    by (simp add: summary_flag_iff)
qed

theorem flat_list_valid_witness:
  "map sig_valid (collectSignatures (SigArray [Some sig_success, None, Some sig_red]))
     = [True, False]"
  using flat_list_valid [of "[Some sig_success, None, Some sig_red]"]
  by (simp add: collectSignatures_def createSignature_def summary_flag_def
      sig_success_def sig_red_def no_signature_def no_summary_def)

text \<open>
  C3. \<open>collectSignatures\<close> on an object with \<open>good\<close> and \<open>bad\<close> lists returns the parsed
  \<open>good\<close> records followed by the parsed \<open>bad\<close> records. Every record from the \<open>good\<close>
  list has \<open>valid = true\<close>. A record from the \<open>bad\<close> list has \<open>valid = false\<close> whenever
  \<open>summary.keyMissing\<close> is true or \<open>status_code\<close> is 9; otherwise \<open>valid\<close> is true
  exactly when \<open>status_code\<close> is 0 and \<open>validity\<close> is 3.
\<close>

theorem good_bad_valid:
  "collectSignatures (SigObject good bad)
     = collect_good [] (case good of None \<Rightarrow> [] | Some g \<Rightarrow> g)
       @ collect_bad [] (case bad of None \<Rightarrow> [] | Some b \<Rightarrow> b) \<and>
   map sig_rawSigObject (collect_good [] g) = map the (filter (\<lambda>s. s \<noteq> None) g) \<and>
   map sig_rawSigObject (collect_bad [] b) = map the (filter (\<lambda>s. s \<noteq> None) b) \<and>
   (\<forall>p \<in> set (collect_good [] g). sig_valid p) \<and>
   (\<forall>p \<in> set (collect_bad [] b).
      (sum_keyMissing (sig_summary p) \<longleftrightarrow>
         (\<exists>sm. rsig_summary (sig_rawSigObject p) = Some sm \<and> rsum_keyMissing sm = Some True)) \<and>
      (if sum_keyMissing (sig_summary p) \<or> rsig_status_code (sig_rawSigObject p) = Some 9
       then sig_valid p = False
       else sig_valid p =
              (rsig_status_code (sig_rawSigObject p) = Some 0 \<and>
               rsig_validity (sig_rawSigObject p) = Some 3)))"
proof (intro conjI ballI)
  show "collectSignatures (SigObject good bad)
     = collect_good [] (case good of None \<Rightarrow> [] | Some g \<Rightarrow> g)
       @ collect_bad [] (case bad of None \<Rightarrow> [] | Some b \<Rightarrow> b)"
    by (simp add: collectSignatures_def collect_bad_acc [of "collect_good [] _"]
        collect_bad_acc [of "[]"] split: option.splits)
next
  show "map sig_rawSigObject (collect_good [] g) = map the (filter (\<lambda>s. s \<noteq> None) g)"
    by (auto simp: collect_good_acc projr_createSignature_raw)
next
  show "map sig_rawSigObject (collect_bad [] b) = map the (filter (\<lambda>s. s \<noteq> None) b)"
    by (auto simp: collect_bad_acc bad_validity_raw projr_createSignature_raw)
next
  fix p
  assume "p \<in> set (collect_good [] g)"
  then show "sig_valid p"
    by (auto simp: collect_good_acc)
next
  fix p
  assume "p \<in> set (collect_bad [] b)"
  then obtain s where p: "p = bad_validity (projr (createSignature (Some s)))"
    by (auto simp: collect_bad_acc)
  obtain q where q: "createSignature (Some s) = Inr q"
    using createSignature_Some by blast
  with p have pq: "p = bad_validity q" by simp
  have raw: "sig_rawSigObject q = s"
    using q by (rule createSignature_raw)
  have km: "sum_keyMissing (sig_summary q)
      \<longleftrightarrow> (\<exists>sm. rsig_summary s = Some sm \<and> rsum_keyMissing sm = Some True)"
    using createSignature_keyMissing [OF q] by (simp add: summary_flag_iff)
  show "sum_keyMissing (sig_summary p) \<longleftrightarrow>
         (\<exists>sm. rsig_summary (sig_rawSigObject p) = Some sm \<and> rsum_keyMissing sm = Some True)"
    using km by (simp add: pq bad_validity_raw bad_validity_summary raw)
  show "if sum_keyMissing (sig_summary p) \<or> rsig_status_code (sig_rawSigObject p) = Some 9
       then sig_valid p = False
       else sig_valid p =
              (rsig_status_code (sig_rawSigObject p) = Some 0 \<and>
               rsig_validity (sig_rawSigObject p) = Some 3)"
    by (simp add: pq bad_validity_raw bad_validity_summary bad_validity_valid)
qed

theorem good_bad_valid_witness:
  "map sig_valid (collectSignatures
      (SigObject (Some [Some sig_red]) (Some [Some sig_marginal, None, Some sig_keyMissing])))
     = [True, True, False]"
  using good_bad_valid [of "Some [Some sig_red]"
      "Some [Some sig_marginal, None, Some sig_keyMissing]"
      "[Some sig_red]" "[Some sig_marginal, None, Some sig_keyMissing]"]
  by (simp add: collectSignatures_def createSignature_def summary_flag_def bad_validity_def
      sig_red_def sig_marginal_def sig_keyMissing_def no_signature_def no_summary_def)

section \<open>Message builder: properties\<close>

text \<open>Writing a property changes that property and no other.\<close>

lemma map_of_replace_prop:
  "has_prop k obj \<Longrightarrow> map_of (replace_prop k v obj) = (map_of obj)(k \<mapsto> v)"
  by (induction obj) (auto simp: has_prop_def fun_upd_twist)

lemma map_of_insert_index:
  "\<not> has_prop k obj \<Longrightarrow> map_of (insert_index n k v obj) = (map_of obj)(k \<mapsto> v)"
proof (induction obj)
  case Nil
  show ?case by simp
next
  case (Cons p obj)
  obtain k' v' where p: "p = (k', v')" by (cases p)
  have k: "k' \<noteq> k" and nk: "\<not> has_prop k obj"
    using Cons.prems by (auto simp: has_prop_def p split: if_splits)
  have IH: "map_of (insert_index n k v obj) = (map_of obj)(k \<mapsto> v)"
    by (rule Cons.IH [OF nk])
  show ?case
    using k by (auto simp: p IH fun_eq_iff split: option.splits)
qed

lemma map_of_append_new:
  "\<not> has_prop k obj \<Longrightarrow> map_of (obj @ [(k, v)]) = (map_of obj)(k \<mapsto> v)"
  by (induction obj) (auto simp: has_prop_def fun_eq_iff split: if_splits)

lemma map_of_set_prop: "map_of (set_prop k v obj) = (map_of obj)(k \<mapsto> v)"
proof (cases "has_prop k obj")
  case True
  then show ?thesis by (simp add: set_prop_def map_of_replace_prop)
next
  case False
  then show ?thesis
    using map_of_insert_index [OF False] map_of_append_new [OF False]
    by (cases "array_index k") (simp_all add: set_prop_def)
qed

lemma has_prop_set_prop: "has_prop k' (set_prop k v obj) \<longleftrightarrow> k' = k \<or> has_prop k' obj"
  by (simp add: has_prop_def map_of_set_prop)

lemma get_prop_set_prop:
  "get_prop (set_prop k v obj) k' = (if k' = k then v else get_prop obj k')"
  by (simp add: get_prop_def map_of_set_prop)

text \<open>The operations of the catalog that declare no parameter at all.\<close>

lemma operations_without_parameters:
  "map fst (filter (\<lambda>(name, d). or_empty (required d) @ or_empty (optional d) = [])
              permittedOperations)
     = [''version'', ''getmore'']"
  by (simp add: permittedOperations_def or_empty_def)



text \<open>
  C2, as stated, fails: on a \<open>version\<close> message, whose operation declares neither
  required nor optional parameters, \<open>setParameter('foo', 1)\<close> stores \<open>foo\<close>, and the
  key is in the serialized message.
\<close>

theorem setParameter_disallowed_counterexample:
  "map_of permittedOperations ''version''
     = Some \<lparr> required = None, optional = None, pinentry = None \<rparr> \<and>
   createMessage ''version'' = Inr (plain_message version_message) \<and>
   setParameter ''foo'' (JNum 1) (plain_message version_message)
     = Inr (plain_message (version_message @ [(''foo'', JNum 1)])) \<and>
   has_prop ''foo'' (toJSON (plain_message (version_message @ [(''foo'', JNum 1)])))"
  by (simp add: permittedOperations_def createMessage_def in_catalog_def plain_message_def
      version_message_def DEFAULT_CHUNKSIZE_def setParameter_def opDef_def catalog_entry_def
      get_prop_def or_empty_def assign_def set_prop_def array_index_def is_digit_def
      has_prop_def toJSON_def)

text \<open>
  C2, amended. For a message whose operation has the catalog definition \<open>d\<close>:
  if \<open>d\<close> declares at least one required or optional parameter, \<open>setParameter\<close> with
  a key that is neither leaves the message unchanged; with a \<open>null\<close> or \<open>undefined\<close>
  value it leaves the message unchanged; and it never throws. Where the filter lets the
  key pass (a declared key, or any key when \<open>d\<close> declares no parameter, as for
  \<open>version\<close> and \<open>getmore\<close>), a value that is not \<open>null\<close> or \<open>undefined\<close> is assigned
  to \<open>msg[key]\<close>: for every key but \<open>__proto__\<close> that writes the own property \<open>key\<close>
  and changes no other; for \<open>__proto__\<close> on a message with the default prototype it
  writes no own property, so the key is not in the serialized message.
\<close>

theorem setParameter_filter:
  assumes "opDef m = Some d"
  shows "(or_empty (required d) @ or_empty (optional d) \<noteq> [] \<and>
          key \<notin> set (or_empty (required d) @ or_empty (optional d))
            \<longrightarrow> setParameter key v m = Inr m) \<and>
         (v = JNull \<or> v = JUndefined \<longrightarrow> setParameter key v m = Inr m) \<and>
         (v \<noteq> JNull \<and> v \<noteq> JUndefined \<and> key \<noteq> ''__proto__'' \<and>
          (key \<in> set (or_empty (required d) @ or_empty (optional d)) \<or>
           or_empty (required d) @ or_empty (optional d) = [])
            \<longrightarrow> setParameter key v m = Inr (m \<lparr> msg := set_prop key v (msg m) \<rparr>) \<and>
                map_of (set_prop key v (msg m)) = (map_of (msg m))(key \<mapsto> v)) \<and>
         (v \<noteq> JNull \<and> v \<noteq> JUndefined \<and> key = ''__proto__'' \<and>
          \<not> has_prop key (msg m) \<and> msg_prototype m = Object_prototype \<and>
          or_empty (required d) @ or_empty (optional d) = []
            \<longrightarrow> (\<exists>m'. setParameter key v m = Inr m' \<and> msg m' = msg m \<and>
                      \<not> has_prop key (toJSON m'))) \<and>
         (\<exists>m'. setParameter key v m = Inr m')"
  using assms
  by (auto simp: setParameter_def Let_def assign_def map_of_set_prop
      proto_setter_inherited_def toJSON_def split: jsvalue.splits)

theorem setParameter_filter_witness:
  "setParameter ''foo'' (JNum 1) encrypt_without_keys = Inr encrypt_without_keys \<and>
   setParameter ''keys'' JNull encrypt_without_keys = Inr encrypt_without_keys \<and>
   setParameter ''keys'' (JArr [JStr ''AB'']) encrypt_without_keys
     = Inr (plain_message
         [(''op'', JStr ''encrypt''), (''chunksize'', JNum 1047552), (''data'', JStr ''hi''),
          (''keys'', JArr [JStr ''AB''])]) \<and>
   (\<exists>m'. setParameter ''__proto__'' (JNum 1) (plain_message version_message) = Inr m' \<and>
         msg m' = version_message)"
proof -
  let ?d = "\<lparr> required = Some [''data'', ''keys''],
         optional = Some [''protocol'', ''signing_keys'', ''base64'', ''mime'', ''armor'',
           ''always-trust'', ''no-encrypt-to'', ''no-compress'', ''throw-keyids'', ''wrap'',
           ''want-address'', ''file_name''],
         pinentry = Some True \<rparr>"
  have d: "opDef encrypt_without_keys = Some ?d"
    by (simp add: opDef_def catalog_entry_def encrypt_without_keys_def plain_message_def
        get_prop_def permittedOperations_def)
  have e: "opDef (plain_message version_message)
             = Some \<lparr> required = None, optional = None, pinentry = None \<rparr>"
    by (simp add: opDef_def catalog_entry_def version_message_def plain_message_def
        get_prop_def permittedOperations_def)
  show ?thesis
    using setParameter_filter [OF d, where key = "''foo''" and v = "JNum 1"]
      setParameter_filter [OF d, where key = "''keys''" and v = JNull]
      setParameter_filter [OF d, where key = "''keys''" and v = "JArr [JStr ''AB'']"]
      setParameter_filter [OF e, where key = "''__proto__''" and v = "JNum 1"]
    by (auto simp: or_empty_def encrypt_without_keys_def plain_message_def version_message_def
        set_prop_def has_prop_def array_index_def is_digit_def)
qed



section \<open>Connection: properties\<close>

lemma handleMessage_more:
  assumes "port_open (conn x)" and "rr_more r = Some True"
  shows "handleMessage pf (Some r) x =
           x \<lparr> conn := (conn x) \<lparr> sent := sent (conn x) @ [getmore (ex_message x)] \<rparr>,
               responseB64 := responseB64 x @ fragment r \<rparr>"
  using assms
  by (cases "rr_response r") (simp_all add: handleMessage_def port_postMessage_def Let_def)

lemma handleMessage_final:
  assumes "port_open (conn x)" and "rr_more r \<noteq> Some True" and "settled x = None"
  shows "handleMessage pf (Some r) x =
           x \<lparr> responseB64 := responseB64 x @ fragment r, listening := False,
               settled := Some (decodeResponse pf (responseB64 x @ fragment r)) \<rparr>"
  using assms
  by (cases "rr_response r") (simp_all add: handleMessage_def cleanup_def settle_def Let_def)

lemma run_append: "run pf (evs @ evs') x = run pf evs' (run pf evs x)"
  by (induction evs arbitrary: x) simp_all

text \<open>
  Chunks with \<open>more: true\<close>: each one extends the buffer and is answered by one
  continuation request; the promise and the listener stay as they are.
\<close>

lemma run_chunks:
  assumes "port_open (conn x)" and "listening x"
    and "\<forall>r \<in> set rs. rr_more r = Some True"
  shows "run pf (inbound rs) x =
           x \<lparr> conn := (conn x) \<lparr> sent := sent (conn x)
                                    @ replicate (length rs) (getmore (ex_message x)) \<rparr>,
               responseB64 := responseB64 x @ concat (map fragment rs) \<rparr>"
  using assms
proof (induction rs arbitrary: x)
  case Nil
  show ?case by simp
next
  case (Cons r rs)
  let ?x1 = "x \<lparr> conn := (conn x) \<lparr> sent := sent (conn x) @ [getmore (ex_message x)] \<rparr>,
               responseB64 := responseB64 x @ fragment r \<rparr>"
  have s: "step pf (OnMessage (Some r)) x = ?x1"
    using Cons.prems by (simp add: step_def handleMessage_more)
  have "run pf (inbound rs) ?x1 =
      ?x1 \<lparr> conn := (conn ?x1) \<lparr> sent := sent (conn ?x1)
                                    @ replicate (length rs) (getmore (ex_message ?x1)) \<rparr>,
               responseB64 := responseB64 ?x1 @ concat (map fragment rs) \<rparr>"
    using Cons.prems by (intro Cons.IH) simp_all
  then show ?case
    using s by (simp add: replicate_append_same)
qed

text \<open>A settled promise stays as it is, whatever happens next.\<close>

lemma settled_step: "settled x = Some r \<Longrightarrow> settled (step pf ev x) = Some r"
  by (cases ev)
     (auto simp: step_def handleMessage_def handleDisconnect_def graceCheck_def settle_def
        cleanup_def port_postMessage_def Let_def split: option.splits)

lemma settled_run: "settled x = Some r \<Longrightarrow> settled (run pf evs x) = Some r"
  by (induction evs arbitrary: x) (simp_all add: settled_step)

text \<open>The grace-period check does nothing while no connection error is recorded.\<close>

lemma graceCheck_no_error: "connectionError (conn x) = None \<Longrightarrow> step pf GraceTimeout x = x"
  by (simp add: step_def graceCheck_def)

lemma step_OnMessage_connectionError:
  "connectionError (conn (step pf (OnMessage m) x)) = connectionError (conn x)"
  by (auto simp: step_def handleMessage_def settle_def cleanup_def port_postMessage_def
      Let_def split: option.splits)

lemma run_without_timer:
  assumes "connectionError (conn x) = None"
    and "\<forall>ev \<in> set evs. ev = GraceTimeout \<or> (\<exists>m. ev = OnMessage m)"
  shows "run pf evs x = run pf (filter (\<lambda>ev. ev \<noteq> GraceTimeout) evs) x"
  using assms
proof (induction evs arbitrary: x)
  case Nil
  show ?case by simp
next
  case (Cons ev evs)
  show ?case
  proof (cases "ev = GraceTimeout")
    case True
    then show ?thesis
      using Cons by (simp add: graceCheck_no_error)
  next
    case False
    then obtain m where m: "ev = OnMessage m"
      using Cons.prems(2) by auto
    have "connectionError (conn (step pf ev x)) = None"
      using Cons.prems(1) by (simp add: m step_OnMessage_connectionError)
    then show ?thesis
      using Cons m by simp
  qed
qed

text \<open>
  A connection with an open port has no error recorded: the constructor establishes
  this, and every method that records an error closes the port.
\<close>

lemma open_port_no_error:
  "port_open (connect r) \<longrightarrow> connectionError (connect r) = None"
  "\<not> port_open (onDisconnect lastError c)"
  "\<not> port_open (disconnect c)"
  by (auto simp: connect_def onDisconnect_def disconnect_def split: option.splits)

lemma post_begin_open:
  assumes "port_open c"
  shows "post_begin None message c =
           \<lparr> conn = c \<lparr> sent := sent c @ [message] \<rparr>, ex_message = message,
             responseB64 = [], listening = True, settled = None \<rparr>"
  using assms by (simp add: post_begin_def port_postMessage_def)

lemma run_pending:
  assumes "port_open c" and "\<forall>r \<in> set rs. rr_more r = Some True"
  shows "run pf (inbound rs) (post_begin None message c) =
      \<lparr> conn = c \<lparr> sent := sent c @ message # replicate (length rs) (getmore message) \<rparr>,
        ex_message = message, responseB64 = concat (map fragment rs),
        listening = True, settled = None \<rparr>"
proof -
  let ?x0 = "post_begin None message c"
  have "run pf (inbound rs) ?x0 =
          ?x0 \<lparr> conn := (conn ?x0) \<lparr> sent := sent (conn ?x0)
                                    @ replicate (length rs) (getmore (ex_message ?x0)) \<rparr>,
               responseB64 := responseB64 ?x0 @ concat (map fragment rs) \<rparr>"
    using assms by (intro run_chunks) (simp_all add: post_begin_open)
  then show ?thesis
    using assms(1) by (simp add: post_begin_open)
qed

lemma run_response:
  assumes "port_open c"
    and "\<forall>r \<in> set firsts. rr_more r = Some True" and "rr_more final \<noteq> Some True"
  shows "run pf (inbound (firsts @ [final])) (post_begin None message c) =
           \<lparr> conn = c \<lparr> sent := sent c @ message # replicate (length firsts) (getmore message) \<rparr>,
             ex_message = message,
             responseB64 = concat (map fragment (firsts @ [final])),
             listening = False,
             settled = Some (decodeResponse pf (concat (map fragment (firsts @ [final])))) \<rparr>"
  using assms(1,3)
  by (simp add: run_append run_pending [OF assms(1,2)] step_def handleMessage_final)

text \<open>
  C1, as stated, fails for the chunk size: for a message whose \<open>chunksize\<close> is 0 the
  continuation request carries the default 1047552, not the message's value.
\<close>

theorem post_chunksize_counterexample:
  "get_prop zero_chunksize_message ''chunksize'' = JNum 0 \<and>
   Connection_post sample_platform None [OnMessage (Some (chunk ''e3'' True)), OnMessage (Some (chunk ''0='' False))]
     zero_chunksize_message (connect None)
     = (Some (Inr (JObj [])),
        (connect None) \<lparr> sent := [zero_chunksize_message,
            [(''op'', JStr ''getmore''), (''chunksize'', JNum 1047552)]] \<rparr>) \<and>
   snd (Connection_post sample_platform None [OnMessage (Some (chunk ''e3'' True)), OnMessage (Some (chunk ''0='' False))]
     zero_chunksize_message (connect None))
     \<noteq> (connect None) \<lparr> sent := [zero_chunksize_message,
            [(''op'', JStr ''getmore''),
             (''chunksize'', get_prop zero_chunksize_message ''chunksize'')]] \<rparr>"
  by (simp add: Connection_post_def connect_def post_begin_def port_postMessage_def
      step_def handleMessage_def chunk_def getmore_def js_or_def get_prop_def
      zero_chunksize_message_def DEFAULT_CHUNKSIZE_def cleanup_def settle_def
      decodeResponse_def sample_platform_def sample_atob_def sample_JSON_parse_def Let_def)

text \<open>
  C1, amended. On an open connection whose first write succeeds, let N inbound events
  arrive, the first N-1 with \<open>more: true\<close> and the last without, such that the
  concatenated fragments base64-decode and parse to an object whose \<open>type\<close> is not
  \<open>"error"\<close>. Then \<open>post\<close> resolves with exactly that object, and the transport has
  received the message followed by exactly N-1 continuation requests
  \<open>{op: "getmore", chunksize}\<close>, where \<open>chunksize\<close> is the message's own when that is
  truthy (a number other than 0) and the default 1023 * 1024 otherwise. After each of
  the first N-1 events one more continuation request has been written and the promise is
  still pending.
\<close>

theorem post_chunked:
  assumes "port_open c"
    and "\<forall>r \<in> set firsts. rr_more r = Some True" and "rr_more final \<noteq> Some True"
    and "atob pf (concat (map fragment (firsts @ [final]))) = Inr decodedStr"
    and "JSON_parse pf decodedStr = Inr (JObj envelope)"
    and "get_prop envelope ''type'' \<noteq> JStr ''error''"
    and "continuation =
           [(''op'', JStr ''getmore''),
            (''chunksize'', if truthy (get_prop message ''chunksize'')
                            then get_prop message ''chunksize'' else JNum (1023 * 1024))]"
  shows "Connection_post pf None (inbound (firsts @ [final])) message c
           = (Some (Inr (JObj envelope)),
              c \<lparr> sent := sent c @ message # replicate (length firsts) continuation \<rparr>) \<and>
         (\<forall>k \<le> length firsts.
            Connection_post pf None (inbound (take k firsts)) message c
              = (None, c \<lparr> sent := sent c @ message # replicate k continuation \<rparr>))"
proof (intro conjI allI impI)
  have gm: "getmore message = continuation"
    by (simp add: getmore_def js_or_def DEFAULT_CHUNKSIZE_def assms(7))
  have dec: "decodeResponse pf (concat (map fragment (firsts @ [final]))) = Inr (JObj envelope)"
    using assms(4,5,6) by (simp add: decodeResponse_def)
  show "Connection_post pf None (inbound (firsts @ [final])) message c
           = (Some (Inr (JObj envelope)),
              c \<lparr> sent := sent c @ message # replicate (length firsts) continuation \<rparr>)"
    using assms(1) dec gm run_response [OF assms(1,2,3), of pf message]
    by (simp add: Connection_post_def Let_def)
  fix k
  assume k: "k \<le> length firsts"
  have more: "\<forall>r \<in> set (take k firsts). rr_more r = Some True"
    using assms(2) by (auto dest: in_set_takeD)
  show "Connection_post pf None (inbound (take k firsts)) message c
              = (None, c \<lparr> sent := sent c @ message # replicate k continuation \<rparr>)"
    using assms(1) k gm
    by (simp add: Connection_post_def run_pending [OF assms(1) more] Let_def min_def)
qed

theorem post_chunked_witness:
  "Connection_post sample_platform None
     (inbound [chunk ''e'' True, chunk ''3'' True, chunk ''0='' False])
     version_message (connect None)
     = (Some (Inr (JObj [])),
        (connect None) \<lparr> sent := [version_message,
            [(''op'', JStr ''getmore''), (''chunksize'', JNum 1047552)],
            [(''op'', JStr ''getmore''), (''chunksize'', JNum 1047552)]] \<rparr>) \<and>
   Connection_post sample_platform None (inbound [chunk ''e'' True]) version_message
     (connect None)
     = (None,
        (connect None) \<lparr> sent := [version_message,
            [(''op'', JStr ''getmore''), (''chunksize'', JNum 1047552)]] \<rparr>)"
proof -
  have a: "port_open (connect None)"
    by (simp add: connect_def)
  have b: "\<forall>r \<in> set [chunk ''e'' True, chunk ''3'' True]. rr_more r = Some True"
    by (simp add: chunk_def)
  have c: "rr_more (chunk ''0='' False) \<noteq> Some True"
    by (simp add: chunk_def)
  have d: "atob sample_platform
             (concat (map fragment ([chunk ''e'' True, chunk ''3'' True] @ [chunk ''0='' False])))
             = Inr ''{}''"
    by (simp add: chunk_def sample_platform_def sample_atob_def)
  have e: "JSON_parse sample_platform ''{}'' = Inr (JObj [])"
    by (simp add: sample_platform_def sample_JSON_parse_def)
  have f: "get_prop [] ''type'' \<noteq> JStr ''error''"
    by (simp add: get_prop_def)
  have g: "[(''op'', JStr ''getmore''), (''chunksize'', JNum 1047552)] =
           [(''op'', JStr ''getmore''),
            (''chunksize'', if truthy (get_prop version_message ''chunksize'')
                            then get_prop version_message ''chunksize''
                            else JNum (1023 * 1024))]"
    by (simp add: version_message_def get_prop_def)
  have h: "(1::nat) \<le> length [chunk ''e'' True, chunk ''3'' True]"
    by simp
  show ?thesis
    using post_chunked [OF a b c d e f g] h
    by (auto simp: connect_def)
qed

text \<open>
  C6. On an open connection whose first write succeeds, let the chunks of a response
  arrive, the last one without \<open>more: true\<close>. If the reassembled buffer decodes and
  parses to an object whose \<open>type\<close> is \<open>"error"\<close>, the promise is rejected with
  \<open>GNUPG_ERROR\<close> and the object's \<open>msg\<close> as detail; if \<open>atob\<close> or \<open>JSON.parse\<close> throws,
  it is rejected with \<open>CONN_UNEXPECTED_ANSWER\<close> and the thrown error's message as
  detail. No later event changes that outcome, so the promise never resolves.
\<close>

theorem post_error_envelope:
  assumes "port_open c"
    and "\<forall>r \<in> set firsts. rr_more r = Some True" and "rr_more final \<noteq> Some True"
    and "buffer = concat (map fragment (firsts @ [final]))"
  shows "(atob pf buffer = Inr decodedStr \<and> JSON_parse pf decodedStr = Inr (JObj envelope) \<and>
          get_prop envelope ''type'' = JStr ''error''
            \<longrightarrow> fst (Connection_post pf None (inbound (firsts @ [final]) @ later) message c)
                  = Some (Inl (GpgmeError GNUPG_ERROR (get_prop envelope ''msg'')))) \<and>
         (atob pf buffer = Inl e
            \<longrightarrow> fst (Connection_post pf None (inbound (firsts @ [final]) @ later) message c)
                  = Some (Inl (GpgmeError CONN_UNEXPECTED_ANSWER
                      (JStr (case e of Error m \<Rightarrow> m
                                     | NotAnError \<Rightarrow> ''Failed to decode response''))))) \<and>
         (atob pf buffer = Inr decodedStr \<and> JSON_parse pf decodedStr = Inl e
            \<longrightarrow> fst (Connection_post pf None (inbound (firsts @ [final]) @ later) message c)
                  = Some (Inl (GpgmeError CONN_UNEXPECTED_ANSWER
                      (JStr (case e of Error m \<Rightarrow> m
                                     | NotAnError \<Rightarrow> ''Failed to decode response'')))))"
proof -
  let ?x = "run pf (inbound (firsts @ [final])) (post_begin None message c)"
  have outcome: "fst (Connection_post pf None (inbound (firsts @ [final]) @ later) message c)
      = Some (decodeResponse pf buffer)"
  proof -
    have "settled ?x = Some (decodeResponse pf buffer)"
      using run_response [OF assms(1,2,3), of pf message] by (simp add: assms(4))
    then have "settled (run pf later ?x) = Some (decodeResponse pf buffer)"
      by (rule settled_run)
    then show ?thesis
      using assms(1) by (simp add: Connection_post_def run_append Let_def)
  qed
  show ?thesis
    unfolding outcome
    by (auto simp: decodeResponse_def thrown_message_def split: thrown.splits)
qed

theorem post_error_envelope_witness:
  "fst (Connection_post sample_platform None
          (inbound [chunk ''eyJ0eXBlIjoiZXJyb3Ii'' True, chunk ''LCJtc2ciOiJObyBkYXRhIn0='' False]
             @ [OnMessage (Some (chunk ''e30='' False))])
          version_message (connect None))
     = Some (Inl (GpgmeError GNUPG_ERROR (JStr ''No data''))) \<and>
   fst (Connection_post sample_platform None (inbound [chunk ''e3'' False] @ [])
          version_message (connect None))
     = Some (Inl (GpgmeError CONN_UNEXPECTED_ANSWER
         (JStr ''The string to be decoded is not correctly encoded.''))) \<and>
   fst (Connection_post sample_platform None (inbound [chunk ''b29wcw=='' False] @ [])
          version_message (connect None))
     = Some (Inl (GpgmeError CONN_UNEXPECTED_ANSWER (JStr ''Unexpected token'')))"
proof -
  have a: "port_open (connect None)"
    by (simp add: connect_def)
  have b1: "\<forall>r \<in> set [chunk ''eyJ0eXBlIjoiZXJyb3Ii'' True]. rr_more r = Some True"
    by (simp add: chunk_def)
  have b0: "\<forall>r \<in> set ([] :: RawResponse list). rr_more r = Some True"
    by simp
  have c: "\<And>s. rr_more (chunk s False) \<noteq> Some True"
    by (simp add: chunk_def)
  have d1: "''eyJ0eXBlIjoiZXJyb3IiLCJtc2ciOiJObyBkYXRhIn0='' =
      concat (map fragment ([chunk ''eyJ0eXBlIjoiZXJyb3Ii'' True]
                @ [chunk ''LCJtc2ciOiJObyBkYXRhIn0='' False]))"
    by (simp add: chunk_def)
  have d2: "''e3'' = concat (map fragment ([] @ [chunk ''e3'' False]))"
    by (simp add: chunk_def)
  have d3: "''b29wcw=='' = concat (map fragment ([] @ [chunk ''b29wcw=='' False]))"
    by (simp add: chunk_def)
  have p1: "atob sample_platform ''eyJ0eXBlIjoiZXJyb3IiLCJtc2ciOiJObyBkYXRhIn0='' = Inr error_json \<and>
      JSON_parse sample_platform error_json
        = Inr (JObj [(''type'', JStr ''error''), (''msg'', JStr ''No data'')]) \<and>
      get_prop [(''type'', JStr ''error''), (''msg'', JStr ''No data'')] ''type'' = JStr ''error''"
    by (simp add: sample_platform_def sample_atob_def sample_JSON_parse_def error_json_def
        get_prop_def)
  have p2: "atob sample_platform ''e3''
      = Inl (Error ''The string to be decoded is not correctly encoded.'')"
    by (simp add: sample_platform_def sample_atob_def)
  have p3: "atob sample_platform ''b29wcw=='' = Inr ''oops'' \<and>
      JSON_parse sample_platform ''oops'' = Inl (Error ''Unexpected token'')"
    by (simp add: sample_platform_def sample_atob_def sample_JSON_parse_def error_json_def)
  show ?thesis
    using post_error_envelope [OF a b1 c d1, where pf = sample_platform
        and decodedStr = error_json
        and envelope = "[(''type'', JStr ''error''), (''msg'', JStr ''No data'')]"
        and later = "[OnMessage (Some (chunk ''e30='' False))]"
        and message = version_message] p1
      post_error_envelope [OF a b0 c d2, where pf = sample_platform
        and e = "Error ''The string to be decoded is not correctly encoded.''"
        and later = "[]" and message = version_message] p2
      post_error_envelope [OF a b0 c d3, where pf = sample_platform
        and decodedStr = "''oops''" and e = "Error ''Unexpected token''"
        and later = "[]" and message = version_message] p3
    by (simp add: get_prop_def)
qed

section \<open>Key normalizer: properties\<close>

text \<open>
  C7. \<open>createKey\<close> throws \<open>KEY_INVALID\<close> for every fingerprint that is not exactly 40
  hexadecimal characters. Otherwise, when raw data is given whose fingerprint differs
  from the requested one after upper-casing both, the result is the minimal key: the
  upper-cased requested fingerprint, its last 16 characters as key id, no user ids, no
  subkeys, and every capability, lifecycle and secret flag false.
\<close>

theorem createKey_invalid_or_minimal:
  "(\<not> (length fpr = 40 \<and> (\<forall>c \<in> set fpr. isHexDigit c)) \<longrightarrow>
      createKey fpr data
        = Inl (GpgmeError KEY_INVALID (JStr (''Invalid fingerprint: '' @ fpr)))) \<and>
   (length fpr = 40 \<and> (\<forall>c \<in> set fpr. isHexDigit c) \<and>
    toUpperCase (rk_fingerprint d) \<noteq> toUpperCase fpr \<longrightarrow>
      createKey fpr (Some d)
        = Inr \<lparr> fingerprint = toUpperCase fpr, keyId = drop 24 (toUpperCase fpr),
                userIds = [], subkeys = [],
                hasSecret = False, canEncrypt = False, canSign = False, canCertify = False,
                canAuthenticate = False, isRevoked = False, isExpired = False,
                isDisabled = False, isInvalid = False, created = 0, expires = None \<rparr> \<and>
      length (drop 24 (toUpperCase fpr)) = 16)"
  by (auto simp: createKey_def isFingerprint_def list_all_iff Let_def minimal_keyData_def
      or_empty_def nullish_def slice_last_def toUpperCase_def)

theorem createKey_invalid_or_minimal_witness:
  "createKey ''abc'' None = Inl (GpgmeError KEY_INVALID (JStr ''Invalid fingerprint: abc'')) \<and>
   createKey fpr_a
     (Some ((minimal_keyData fpr_b)
        \<lparr> rk_can_sign := Some True, rk_secret := Some True, rk_revoked := Some True \<rparr>))
     = Inr \<lparr> fingerprint = ''AAAAAAAAAAAAAAAAAAAAAAAAAAAAAAAAAAAAAAAA'',
             keyId = ''AAAAAAAAAAAAAAAA'', userIds = [], subkeys = [],
             hasSecret = False, canEncrypt = False, canSign = False, canCertify = False,
             canAuthenticate = False, isRevoked = False, isExpired = False,
             isDisabled = False, isInvalid = False, created = 0, expires = None \<rparr>"
  using createKey_invalid_or_minimal [of "''abc''" None]
    createKey_invalid_or_minimal [of fpr_a _
      "(minimal_keyData fpr_b)
         \<lparr> rk_can_sign := Some True, rk_secret := Some True, rk_revoked := Some True \<rparr>"]
  by (simp add: fpr_a_def fpr_b_def minimal_keyData_def toUpperCase_def toUpperCase_char_def
      isHexDigit_def)

section \<open>Keyring: properties\<close>

lemma ToInt32_bit: "n < 31 \<Longrightarrow> bit (ToInt32 st) n = bit st n"
  by (simp add: ToInt32_def bit_signed_take_bit_iff)

lemma and_pow2_cases: "(a::int) AND 2 ^ n = (if bit a n then 2 ^ n else 0)"
  by (rule bit_eqI) (auto simp: bit_and_iff bit_exp_iff)

lemma js_bitand_pow2: "n < 31 \<Longrightarrow> (js_bitand st (2 ^ n) = 2 ^ n) \<longleftrightarrow> bit st n"
proof -
  assume n: "n < 31"
  have "ToInt32 (2 ^ n) = 2 ^ n"
    unfolding ToInt32_def
    by (rule bit_eqI) (use n in \<open>auto simp: bit_signed_take_bit_iff bit_exp_iff\<close>)
  then show ?thesis
    by (simp add: js_bitand_def and_pow2_cases ToInt32_bit n)
qed

lemma js_bitand_1: "js_bitand st 1 = 1 \<longleftrightarrow> bit st 0"
  using js_bitand_pow2 [of 0 st] by simp

lemma js_bitand_2: "js_bitand st 2 = 2 \<longleftrightarrow> bit st 1"
  using js_bitand_pow2 [of 1 st] by simp

lemma js_bitand_4: "js_bitand st 4 = 4 \<longleftrightarrow> bit st 2"
  using js_bitand_pow2 [of 2 st] by simp

lemma js_bitand_8: "js_bitand st 8 = 8 \<longleftrightarrow> bit st 3"
  using js_bitand_pow2 [of 3 st] by simp

text \<open>The decoding of a status, bit by bit.\<close>

lemma decode_status_bits:
  "decode_status st =
     \<lparr> info_status = (if st = 0 then nochange else if bit st 0 then newkey else change),
       info_changes = \<lparr> chg_userId = bit st 1, chg_signature = bit st 2,
                        chg_subkey = bit st 3 \<rparr> \<rparr>"
  by (simp add: decode_status_def js_bitand_1 js_bitand_2 js_bitand_4 js_bitand_8)

text \<open>
  What the loop leaves behind: the upper-cased fingerprints in order, and for each
  fingerprint the decoding of the last entry that carries it.
\<close>

lemma import_loop_fingerprints:
  "fst (import_loop imps (fingerprints, importInfos))
     = fingerprints @ map (\<lambda>imp. toUpperCase (imp_fingerprint imp)) imps"
  by (induction imps arbitrary: fingerprints importInfos) (simp_all add: Let_def)

lemma find_snoc:
  "List.find P (xs @ [x])
     = (case List.find P xs of None \<Rightarrow> if P x then Some x else None | Some y \<Rightarrow> Some y)"
  by (induction xs) simp_all

lemma import_loop_lookup:
  "snd (import_loop imps (fingerprints, importInfos)) fpr
     = (case List.find (\<lambda>imp. toUpperCase (imp_fingerprint imp) = fpr) (rev imps) of
          None \<Rightarrow> importInfos fpr
        | Some imp \<Rightarrow> Some (decode_status (imp_status imp)))"
  by (induction imps arbitrary: fingerprints importInfos)
     (auto simp: Let_def find_snoc split: option.splits)

text \<open>The secret key list request that \<open>getDefaultKey\<close> builds.\<close>

lemmas message_eval =
  createMessage_def in_catalog_def setParameter_def isComplete_def getMissingParams_def
  opDef_def catalog_entry_def get_prop_def has_prop_def in_msg_def inherited_names_def
  Object_prototype_names_def permittedOperations_def DEFAULT_CHUNKSIZE_def or_empty_def
  assign_def set_prop_def array_index_def is_digit_def plain_message_def

lemma build_secret_keylist:
  "createMessage ''keylist''
     = Inr (plain_message [(''op'', JStr ''keylist''), (''chunksize'', JNum 1047552)])"
  "setParameter ''secret'' (JBool True)
       (plain_message [(''op'', JStr ''keylist''), (''chunksize'', JNum 1047552)])
     = Inr (plain_message [(''op'', JStr ''keylist''), (''chunksize'', JNum 1047552),
                           (''secret'', JBool True)])"
  "setParameter ''sigs'' (JBool True)
       (plain_message [(''op'', JStr ''keylist''), (''chunksize'', JNum 1047552),
                       (''secret'', JBool True)])
     = Inr (plain_message [(''op'', JStr ''keylist''), (''chunksize'', JNum 1047552),
                           (''secret'', JBool True), (''sigs'', JBool True)])"
  "isComplete (plain_message [(''op'', JStr ''keylist''), (''chunksize'', JNum 1047552),
                              (''secret'', JBool True), (''sigs'', JBool True)])
     = Inr True"
  "msg (plain_message obj) = obj"
  by (simp_all add: message_eval)









section \<open>Import results (keyring.ts)\<close>

lemma toUpperCase_char_idem: "toUpperCase_char (toUpperCase_char c) = toUpperCase_char c"
  by (auto simp: toUpperCase_char_def split: option.splits if_splits)

lemma toUpperCase_idem: "toUpperCase (toUpperCase s) = toUpperCase s"
  by (simp add: toUpperCase_def toUpperCase_char_idem)

lemma find_rev_last:
  "List.find P (rev xs) = (if filter P xs = [] then None else Some (last (filter P xs)))"
  by (induction xs) (auto simp: find_snoc split: option.splits)

lemma filter_distinct_key:
  "distinct (map f xs) \<Longrightarrow> x \<in> set xs \<Longrightarrow> filter (\<lambda>y. f y = f x) xs = [x]"
  by (induction xs) (auto simp: filter_empty_conv image_iff)

text \<open>The map that the loop builds from an empty one.\<close>

lemma import_loop_infos:
  "snd (import_loop imps ([], Map.empty)) fpr
     = (if fpr \<in> (\<lambda>imp. toUpperCase (imp_fingerprint imp)) ` set imps
        then Some (decode_status (imp_status
               (last (filter (\<lambda>imp. toUpperCase (imp_fingerprint imp) = fpr) imps))))
        else None)"
  by (auto simp: import_loop_lookup find_rev_last filter_empty_conv image_iff)

lemma createKey_alone:
  "createKey fpr None =
     (if isFingerprint fpr
      then Inr \<lparr> fingerprint = toUpperCase fpr, keyId = drop 24 (toUpperCase fpr),
                 userIds = [], subkeys = [],
                 hasSecret = False, canEncrypt = False, canSign = False, canCertify = False,
                 canAuthenticate = False, isRevoked = False, isExpired = False,
                 isDisabled = False, isInvalid = False, created = 0, expires = None \<rparr>
      else Inl (GpgmeError KEY_INVALID (JStr (''Invalid fingerprint: '' @ fpr))))"
  by (auto simp: createKey_def isFingerprint_def Let_def minimal_keyData_def or_empty_def
      nullish_def slice_last_def toUpperCase_def)

lemma imported_from_fingerprints_eq:
  assumes "\<forall>fpr \<in> set fps. importInfos fpr \<noteq> None"
  shows "imported_from_fingerprints importInfos fps =
     (case List.find (\<lambda>fpr. \<not> isFingerprint fpr) fps of
        Some fpr \<Rightarrow> Inl (GpgmeError KEY_INVALID (JStr (''Invalid fingerprint: '' @ fpr)))
      | None \<Rightarrow>
          Inr (map (\<lambda>fpr. \<lparr> ik_key = projr (createKey fpr None),
                             ik_status = info_status (the (importInfos fpr)),
                             ik_changes = info_changes (the (importInfos fpr)) \<rparr>) fps))"
  using assms
proof (induction fps)
  case Nil
  show ?case by simp
next
  case (Cons fpr fps)
  then obtain info where info: "importInfos fpr = Some info"
    by auto
  show ?case
  proof (cases "isFingerprint fpr")
    case False
    then show ?thesis
      by (simp add: info createKey_alone)
  next
    case True
    then show ?thesis
      using Cons by (auto simp: info createKey_alone split: option.splits)
  qed
qed

lemma imported_from_keys_eq:
  "imported_from_keys importInfos ks =
     map (\<lambda>key. \<lparr> ik_key = key,
                   ik_status = info_status (the (importInfos (fingerprint key))),
                   ik_changes = info_changes (the (importInfos (fingerprint key))) \<rparr>)
       (filter (\<lambda>key. importInfos (fingerprint key) \<noteq> None) ks)"
  by (induction ks) (auto split: option.splits)

lemma build_import_message:
  assumes "armored \<noteq> []"
  shows "createMessage ''import''
           = Inr (plain_message [(''op'', JStr ''import''), (''chunksize'', JNum 1047552)])"
    and "setParameter ''data'' (JStr armored)
             (plain_message [(''op'', JStr ''import''), (''chunksize'', JNum 1047552)])
           = Inr (plain_message [(''op'', JStr ''import''), (''chunksize'', JNum 1047552),
                                 (''data'', JStr armored)])"
    and "isComplete (plain_message [(''op'', JStr ''import''), (''chunksize'', JNum 1047552),
                                 (''data'', JStr armored)]) = Inr True"
  by (simp_all add: message_eval)

lemma importKey_steps:
  assumes "armored \<noteq> []"
    and "conn_post [(''op'', JStr ''import''), (''chunksize'', JNum 1047552),
                    (''data'', JStr armored)] w = (Some (Inr response), w')"
    and "resp_imports response = Some imps" and "imps \<noteq> []"
  shows "importKey conn_post (Some armored) prepareSync w =
     (let summary = build_summary (resp_counters response) importFeedbackValues initial_summary;
          fingerprints = map (\<lambda>imp. toUpperCase (imp_fingerprint imp)) imps;
          importInfos = snd (import_loop imps ([], Map.empty))
      in if prepareSync
         then await (getKeys conn_post
                       \<lparr> opt_pattern = Some (PatArray fingerprints),
                         opt_prepareSync = True, opt_search = False \<rparr>) (\<lambda>ks.
                async_return \<lparr> res_Keys = imported_from_keys importInfos ks,
                               res_summary = summary \<rparr>) w'
         else await (lift (imported_from_fingerprints importInfos fingerprints))
                (\<lambda>iks. async_return \<lparr> res_Keys = iks, res_summary = summary \<rparr>) w')"
proof -
  have post: "Message_post conn_post
      (plain_message [(''op'', JStr ''import''), (''chunksize'', JNum 1047552),
                      (''data'', JStr armored)]) w = (Some (Inr response), w')"
    using assms(2)
    by (simp add: Message_post_def await_def lift_def build_import_message [OF assms(1)]
        build_secret_keylist(5))
  obtain fps infos where loop: "import_loop imps ([], Map.empty) = (fps, infos)"
    by (cases "import_loop imps ([], Map.empty)")
  have fps: "fps = map (\<lambda>imp. toUpperCase (imp_fingerprint imp)) imps"
    using import_loop_fingerprints [of imps "[]" Map.empty] loop by simp
  show ?thesis
    using assms(1,3,4) post
    by (simp add: importKey_def await_def lift_def build_import_message [OF assms(1)]
        or_empty_def Let_def loop fps)
qed

text \<open>
  C8, as stated, fails: the engine answers an import with two entries for the same
  fingerprint, the first with status 1 and the second with status 2. \<open>importKey\<close> returns
  two results, and both are \<open>change\<close> with \<open>changes.userId\<close> set: the first entry, whose
  status has bit 0 set, is not reported as \<open>newkey\<close>.
\<close>

theorem importKey_repeated_fingerprint_counterexample:
  "map imp_status repeated_imports = [1, 2] \<and>
   map imp_fingerprint repeated_imports = [fpr_b, fpr_b] \<and>
   importKey (import_engine repeated_imports []) (Some ''armored key'') False 0
     = (Some (Inr \<lparr> res_Keys =
          [\<lparr> ik_key = fingerprint_only_key fpr_b, ik_status = change,
             ik_changes = \<lparr> chg_userId = True, chg_signature = False, chg_subkey = False \<rparr> \<rparr>,
           \<lparr> ik_key = fingerprint_only_key fpr_b, ik_status = change,
             ik_changes = \<lparr> chg_userId = True, chg_signature = False, chg_subkey = False \<rparr> \<rparr>],
          res_summary = initial_summary \<rparr>), 1)"
  by (simp add: repeated_imports_def import_engine_def fpr_b_def no_response_def
      importKey_def await_def lift_def async_return_def Message_post_def message_eval
      Let_def decode_status_def js_bitand_def ToInt32_def toUpperCase_def
      toUpperCase_char_def createKey_def isFingerprint_def isHexDigit_def
      fingerprint_only_key_def importFeedbackValues_def minimal_keyData_def nullish_def
      slice_last_def)
text \<open>
  C8, amended. The engine answers the import request of \<open>importKey\<close> with a non-empty list
  of entries. \<open>importKey\<close> keeps one decoded status for each upper-cased fingerprint, that
  of the last entry with this fingerprint, and decodes it as claimed: 0 gives \<open>nochange\<close>,
  bit 0 set gives \<open>newkey\<close>, any other status gives \<open>change\<close>, and \<open>changes.userId\<close>,
  \<open>changes.signature\<close> and \<open>changes.subkey\<close> are bits 1, 2 and 3. Without \<open>prepareSync\<close>,
  when every upper-cased fingerprint has 40 hexadecimal digits, the result has one item for
  each entry, in the order of the entries, with the key made from the fingerprint alone
  and the decoding kept for this fingerprint; otherwise \<open>importKey\<close> throws \<open>KEY_INVALID\<close>
  for the first fingerprint that is malformed. With \<open>prepareSync\<close>, when the key listing
  for the upper-cased fingerprints returns, the result has one item for each listed key
  whose fingerprint is one of them, with the decoding kept for this fingerprint. When the
  upper-cased fingerprints of the entries are distinct, the status kept for the fingerprint
  of an entry is the status of this entry. The summary is built from the counters of the
  response.
\<close>

theorem importKey_reports:
  assumes "armored \<noteq> []"
    and "conn_post [(''op'', JStr ''import''), (''chunksize'', JNum 1047552),
                    (''data'', JStr armored)] w = (Some (Inr response), w1)"
    and "resp_imports response = Some imps" and "imps \<noteq> []"
    and "fpr_of = (\<lambda>imp. toUpperCase (imp_fingerprint imp))"
    and "reported = (\<lambda>fpr. imp_status (last (filter (\<lambda>imp. fpr_of imp = fpr) imps)))"
    and "status_of = (\<lambda>st. if st = 0 then nochange else if bit st 0 then newkey else change)"
    and "changes_of = (\<lambda>st. \<lparr> chg_userId = bit st 1, chg_signature = bit st 2,
                                 chg_subkey = bit st 3 \<rparr>)"
    and "summary = build_summary (resp_counters response) importFeedbackValues initial_summary"
  shows "((\<forall>imp \<in> set imps. isFingerprint (fpr_of imp)) \<longrightarrow>
            importKey conn_post (Some armored) False w
              = (Some (Inr \<lparr> res_Keys =
                   map (\<lambda>imp. \<lparr> ik_key = \<lparr> fingerprint = fpr_of imp,
                                   keyId = drop 24 (fpr_of imp), userIds = [], subkeys = [],
                                   hasSecret = False, canEncrypt = False, canSign = False,
                                   canCertify = False, canAuthenticate = False,
                                   isRevoked = False, isExpired = False, isDisabled = False,
                                   isInvalid = False, created = 0, expires = None \<rparr>,
                                 ik_status = status_of (reported (fpr_of imp)),
                                 ik_changes = changes_of (reported (fpr_of imp)) \<rparr>) imps,
                   res_summary = summary \<rparr>), w1)) \<and>
         (\<forall>fpr. List.find (\<lambda>f. \<not> isFingerprint f) (map fpr_of imps) = Some fpr \<longrightarrow>
            importKey conn_post (Some armored) False w
              = (Some (Inl (GpgmeError KEY_INVALID (JStr (''Invalid fingerprint: '' @ fpr)))),
                 w1)) \<and>
         (\<forall>ks w2.
            getKeys conn_post \<lparr> opt_pattern = Some (PatArray (map fpr_of imps)),
                                opt_prepareSync = True, opt_search = False \<rparr> w1
              = (Some (Inr ks), w2) \<longrightarrow>
            importKey conn_post (Some armored) True w
              = (Some (Inr \<lparr> res_Keys =
                   map (\<lambda>key. \<lparr> ik_key = key,
                                 ik_status = status_of (reported (fingerprint key)),
                                 ik_changes = changes_of (reported (fingerprint key)) \<rparr>)
                     (filter (\<lambda>key. fingerprint key \<in> fpr_of ` set imps) ks),
                   res_summary = summary \<rparr>), w2)) \<and>
         (distinct (map fpr_of imps) \<longrightarrow>
            (\<forall>imp \<in> set imps. reported (fpr_of imp) = imp_status imp))"
proof -
  let ?infos = "snd (import_loop imps ([], Map.empty))"
  let ?fps = "map fpr_of imps"
  have infos: "?infos fpr = (if fpr \<in> fpr_of ` set imps
                             then Some \<lparr> info_status = status_of (reported fpr),
                                         info_changes = changes_of (reported fpr) \<rparr>
                             else None)" for fpr
    by (simp add: import_loop_infos decode_status_bits assms(5,6,7,8))
  have defined: "\<forall>fpr \<in> set ?fps. ?infos fpr \<noteq> None"
    by (simp add: infos)
  note steps = importKey_steps [where conn_post = conn_post and w = w and w' = w1
      and armored = armored and response = response, OF assms(1,2,3,4), folded assms(5)]
  show ?thesis
  proof (intro conjI allI impI ballI)
    fix imp
    assume "distinct (map fpr_of imps)" and "imp \<in> set imps"
    then show "reported (fpr_of imp) = imp_status imp"
      by (simp add: assms(6) filter_distinct_key)
  next
    assume ok: "\<forall>imp \<in> set imps. isFingerprint (fpr_of imp)"
    then have none: "List.find (\<lambda>f. \<not> isFingerprint f) ?fps = None"
      by (simp add: find_None_iff)
    have keys: "projr (createKey (fpr_of imp) None)
        = \<lparr> fingerprint = fpr_of imp,
                                 keyId = drop 24 (fpr_of imp), userIds = [], subkeys = [],
                                 hasSecret = False, canEncrypt = False, canSign = False,
                                 canCertify = False, canAuthenticate = False,
                                 isRevoked = False, isExpired = False, isDisabled = False,
                                 isInvalid = False, created = 0, expires = None \<rparr>"
      if "imp \<in> set imps" for imp
      using ok that by (simp add: createKey_alone assms(5) toUpperCase_idem)
    show "importKey conn_post (Some armored) False w
              = (Some (Inr \<lparr> res_Keys =
                   map (\<lambda>imp. \<lparr> ik_key = \<lparr> fingerprint = fpr_of imp,
                                   keyId = drop 24 (fpr_of imp), userIds = [], subkeys = [],
                                   hasSecret = False, canEncrypt = False, canSign = False,
                                   canCertify = False, canAuthenticate = False,
                                   isRevoked = False, isExpired = False, isDisabled = False,
                                   isInvalid = False, created = 0, expires = None \<rparr>,
                                 ik_status = status_of (reported (fpr_of imp)),
                                 ik_changes = changes_of (reported (fpr_of imp)) \<rparr>) imps,
                   res_summary = summary \<rparr>), w1)"
      using keys
      by (simp add: steps Let_def await_def lift_def async_return_def assms(9)
          imported_from_fingerprints_eq [OF defined] none infos comp_def)
  next
    fix fpr
    assume "List.find (\<lambda>f. \<not> isFingerprint f) (map fpr_of imps) = Some fpr"
    then show "importKey conn_post (Some armored) False w
              = (Some (Inl (GpgmeError KEY_INVALID (JStr (''Invalid fingerprint: '' @ fpr)))),
                 w1)"
      by (simp add: steps Let_def await_def lift_def
          imported_from_fingerprints_eq [OF defined])
  next
    fix ks w2
    assume "getKeys conn_post \<lparr> opt_pattern = Some (PatArray (map fpr_of imps)),
                                opt_prepareSync = True, opt_search = False \<rparr> w1
              = (Some (Inr ks), w2)"
    then show "importKey conn_post (Some armored) True w
              = (Some (Inr \<lparr> res_Keys =
                   map (\<lambda>key. \<lparr> ik_key = key,
                                 ik_status = status_of (reported (fingerprint key)),
                                 ik_changes = changes_of (reported (fingerprint key)) \<rparr>)
                     (filter (\<lambda>key. fingerprint key \<in> fpr_of ` set imps) ks),
                   res_summary = summary \<rparr>), w2)"
      by (simp add: steps Let_def await_def async_return_def imported_from_keys_eq infos
          assms(9) cong: map_cong filter_cong)
  qed
qed

theorem importKey_reports_witness:
  "importKey (import_engine distinct_imports []) (Some ''armored key'') False 0
     = (Some (Inr \<lparr> res_Keys =
          [\<lparr> ik_key = fingerprint_only_key ''AAAAAAAAAAAAAAAAAAAAAAAAAAAAAAAAAAAAAAAA'',
             ik_status = newkey,
             ik_changes = \<lparr> chg_userId = False, chg_signature = False, chg_subkey = False \<rparr> \<rparr>,
           \<lparr> ik_key = fingerprint_only_key ''0123456789ABCDEF0123456789ABCDEF01234567'',
             ik_status = change,
             ik_changes = \<lparr> chg_userId = True, chg_signature = False, chg_subkey = False \<rparr> \<rparr>],
          res_summary = initial_summary \<rparr>), 1) \<and>
   distinct (map (\<lambda>imp. toUpperCase (imp_fingerprint imp)) distinct_imports) \<and>
   map (\<lambda>imp. imp_status (last (filter
           (\<lambda>other. toUpperCase (imp_fingerprint other) = toUpperCase (imp_fingerprint imp))
           distinct_imports))) distinct_imports = [1, 2] \<and>
   importKey (import_engine mixed_imports []) (Some ''armored key'') False 0
     = (Some (Inr \<lparr> res_Keys =
          [\<lparr> ik_key = fingerprint_only_key ''AAAAAAAAAAAAAAAAAAAAAAAAAAAAAAAAAAAAAAAA'',
             ik_status = change,
             ik_changes = \<lparr> chg_userId = False, chg_signature = True, chg_subkey = True \<rparr> \<rparr>,
           \<lparr> ik_key = fingerprint_only_key ''0123456789ABCDEF0123456789ABCDEF01234567'',
             ik_status = change,
             ik_changes = \<lparr> chg_userId = True, chg_signature = False, chg_subkey = False \<rparr> \<rparr>,
           \<lparr> ik_key = fingerprint_only_key ''AAAAAAAAAAAAAAAAAAAAAAAAAAAAAAAAAAAAAAAA'',
             ik_status = change,
             ik_changes = \<lparr> chg_userId = False, chg_signature = True, chg_subkey = True \<rparr> \<rparr>],
          res_summary = initial_summary \<rparr>), 1) \<and>
   importKey (import_engine [\<lparr> imp_fingerprint = ''xyz'', imp_status = 1 \<rparr>] [])
       (Some ''armored key'') False 0
     = (Some (Inl (GpgmeError KEY_INVALID (JStr ''Invalid fingerprint: XYZ''))), 1) \<and>
   importKey (import_engine mixed_imports [minimal_keyData fpr_c, minimal_keyData fpr_b])
       (Some ''armored key'') True 0
     = (Some (Inr \<lparr> res_Keys =
          [\<lparr> ik_key = (fingerprint_only_key ''0123456789ABCDEF0123456789ABCDEF01234567'')
                        \<lparr> hasSecret := True \<rparr>,
             ik_status = change,
             ik_changes = \<lparr> chg_userId = True, chg_signature = False, chg_subkey = False \<rparr> \<rparr>],
          res_summary = initial_summary \<rparr>), 3)"
proof -
  let ?fpr_of = "\<lambda>imp. toUpperCase (imp_fingerprint imp)"
  let ?A = "''AAAAAAAAAAAAAAAAAAAAAAAAAAAAAAAAAAAAAAAA''"
  let ?B = "''BBBBBBBBBBBBBBBBBBBBBBBBBBBBBBBBBBBBBBBB''"
  let ?C = "''0123456789ABCDEF0123456789ABCDEF01234567''"
  have up: "toUpperCase fpr_a = ?A" "toUpperCase fpr_c = ?C" "toUpperCase fpr_b = ?B"
    "toUpperCase ?A = ?A" "toUpperCase ?C = ?C" "toUpperCase ''xyz'' = ''XYZ''"
    by (simp_all add: fpr_a_def fpr_b_def fpr_c_def toUpperCase_def toUpperCase_char_def)
  have fp: "isFingerprint ?A" "isFingerprint ?C" "isFingerprint fpr_b" "isFingerprint fpr_c"
    "\<not> isFingerprint ''XYZ''"
    by (simp_all add: fpr_b_def fpr_c_def isFingerprint_def isHexDigit_def)
  have a: "''armored key'' \<noteq> []"
    by simp
  have post: "import_engine imps ks
                [(''op'', JStr ''import''), (''chunksize'', JNum 1047552),
                 (''data'', JStr ''armored key'')] 0
              = (Some (Inr (no_response \<lparr> resp_imports := Some imps \<rparr>)), 1)" for imps ks
    by (simp add: import_engine_def get_prop_def)
  have imps: "resp_imports (no_response \<lparr> resp_imports := Some imps \<rparr>) = Some imps" for imps
    by simp
  have ne: "mixed_imports \<noteq> []" "[\<lparr> imp_fingerprint = ''xyz'', imp_status = 1 \<rparr>] \<noteq> []"
    "distinct_imports \<noteq> []"
    by (simp_all add: mixed_imports_def distinct_imports_def)
  have apart: "distinct (map ?fpr_of distinct_imports)"
    by (simp add: distinct_imports_def up)
  have valid': "\<forall>imp \<in> set distinct_imports. isFingerprint (?fpr_of imp)"
    by (simp add: distinct_imports_def up fp)
  have sm: "initial_summary = build_summary
      (resp_counters (no_response \<lparr> resp_imports := Some imps \<rparr>)) importFeedbackValues
      initial_summary" for imps
    by (simp add: no_response_def importFeedbackValues_def)
  have fps: "map ?fpr_of mixed_imports = [?A, ?C, ?A]"
    by (simp add: mixed_imports_def up)
  have valid: "\<forall>imp \<in> set mixed_imports. isFingerprint (?fpr_of imp)"
    by (simp add: mixed_imports_def up fp)
  have bad: "List.find (\<lambda>f. \<not> isFingerprint f)
               (map ?fpr_of [\<lparr> imp_fingerprint = ''xyz'', imp_status = 1 \<rparr>]) = Some ''XYZ''"
    by (simp add: up fp)
  have listed: "getKeys (import_engine mixed_imports [minimal_keyData fpr_c, minimal_keyData fpr_b])
      \<lparr> opt_pattern = Some (PatArray (map ?fpr_of mixed_imports)), opt_prepareSync = True,
        opt_search = False \<rparr> 1
      = (Some (Inr [(fingerprint_only_key ?C) \<lparr> hasSecret := True \<rparr>,
                    (fingerprint_only_key ?B) \<lparr> hasSecret := True \<rparr>]), 3)"
    unfolding fps
    by (simp add: getKeys_def set_keys_pattern_def toKeyIdArray_def merge_secret_def
        import_engine_def no_response_def minimal_keyData_def up fp
        await_def lift_def async_return_def Message_post_def message_eval
        createKeyWithMethods_def createKey_def nullish_def slice_last_def
        fingerprint_only_key_def Let_def)
  have reported: "imp_status (last (filter (\<lambda>imp. ?fpr_of imp = ?A) mixed_imports)) = 12"
    "imp_status (last (filter (\<lambda>imp. ?fpr_of imp = ?C) mixed_imports)) = 2"
    by (simp_all add: mixed_imports_def up)
  have bits: "\<not> bit (12::int) 0" "\<not> bit (12::int) 1" "bit (12::int) 2" "bit (12::int) 3"
    "\<not> bit (2::int) 0" "bit (2::int) 1" "\<not> bit (2::int) 2" "\<not> bit (2::int) 3"
    by (simp_all add: bit_iff_odd)
  show ?thesis
    using importKey_reports [where conn_post = "import_engine distinct_imports []" and w = 0
        and ?w1.0 = 1, OF a post imps ne(3) refl refl refl refl sm]
      apart valid'
      importKey_reports [where conn_post = "import_engine mixed_imports []" and w = 0
        and ?w1.0 = 1, OF a post imps ne(1) refl refl refl refl sm]
      importKey_reports [where w = 0 and ?w1.0 = 1
        and conn_post = "import_engine [\<lparr> imp_fingerprint = ''xyz'', imp_status = 1 \<rparr>] []",
        OF a post imps ne(2) refl refl refl refl sm]
      importKey_reports [where w = 0 and ?w1.0 = 1
        and conn_post = "import_engine mixed_imports [minimal_keyData fpr_c, minimal_keyData fpr_b]",
        OF a post imps ne(1) refl refl refl refl sm]
      valid bad listed
    by (simp add: bits fingerprint_only_key_def mixed_imports_def distinct_imports_def up)
qed

end
